theory Spec2Isabelle
  imports Main
begin

section \<open>Python values used by gridmaker.py\<close>

text \<open>
  A Python \<open>str\<close> is a sequence of Unicode code points, so it is modelled as the list of
  its code points. Python's \<open>int\<close> is unbounded and is modelled by \<open>int\<close>.
\<close>

type_synonym pystr = "int list"

text \<open>The ASCII text of a HOL string literal, as a Python string.\<close>

definition ascii :: "string \<Rightarrow> pystr" where
  "ascii s = map of_char s"

text \<open>
  The exceptions that reach the handlers of \<open>main\<close>, each with its \<open>str(e)\<close> text.
  \<open>OtherException\<close> stands for every other subclass of \<open>Exception\<close>.
\<close>

datatype error =
    FileNotFoundError pystr
  | ValueError pystr
  | ZeroDivisionError pystr
  | OverflowError pystr
  | OtherException pystr

fun str_of :: "error \<Rightarrow> pystr" where
  "str_of (FileNotFoundError m) = m"
| "str_of (ValueError m) = m"
| "str_of (ZeroDivisionError m) = m"
| "str_of (OverflowError m) = m"
| "str_of (OtherException m) = m"

text \<open>
  Python's builtin \<open>chr(i)\<close>: the one-character string of code point \<open>i\<close>. CPython
  first converts the argument to a C \<open>int\<close> and raises OverflowError when it does not
  fit (below \<open>-2**31\<close> or from \<open>2**31\<close> on); it then raises ValueError unless the value
  is in \<open>range(0x110000)\<close>.
\<close>

definition overflow_error :: error where
  "overflow_error = OverflowError (ascii ''Python int too large to convert to C int'')"

definition chr_error :: error where
  "chr_error = ValueError (ascii ''chr() arg not in range(0x110000)'')"

definition chr :: "int \<Rightarrow> error + pystr" where
  "chr i =
     (if i < - 2147483648 \<or> 2147483648 \<le> i then Inl overflow_error
      else if 0 \<le> i \<and> i < 1114112 then Inr [i]
      else Inl chr_error)"

text \<open>
  \<open>a + b\<close> on two string expressions: the operands are evaluated left to right and the
  first exception raised wins.
\<close>

definition concat_res :: "error + pystr \<Rightarrow> error + pystr \<Rightarrow> error + pystr" where
  "concat_res a b =
     (case a of Inl e \<Rightarrow> Inl e
      | Inr s \<Rightarrow> (case b of Inl e \<Rightarrow> Inl e | Inr t \<Rightarrow> Inr (s @ t)))"

text \<open>\<open>str(n)\<close> of an integer: its decimal digits, with a minus sign when negative.\<close>

fun digits :: "nat \<Rightarrow> pystr" where
  "digits n = (if n < 10 then [48 + int n] else digits (n div 10) @ [48 + int (n mod 10)])"

declare digits.simps [simp del]

definition str_int :: "int \<Rightarrow> pystr" where
  "str_int i = (if i < 0 then 45 # digits (nat (- i)) else digits (nat i))"

text \<open>\<open>range(n)\<close>: the integers from 0 up to \<open>n - 1\<close>, none when \<open>n \<le> 0\<close>.\<close>

definition range :: "int \<Rightarrow> int list" where
  "range n = [0..n - 1]"

section \<open>Column labels\<close>

text \<open>
  \<^verbatim>\<open>
  def get_column_label(index: int) -> str:
      if index < 26:
          return chr(65 + index)  # A-Z
      else:
          return chr(65 + (index // 26) - 1) + chr(65 + (index % 26))
  \<close>
  Python's \<open>//\<close> and \<open>%\<close> with a positive divisor are floor division and its remainder,
  which is what \<open>div\<close> and \<open>mod\<close> on \<open>int\<close> are.
\<close>

definition get_column_label :: "int \<Rightarrow> error + pystr" where
  "get_column_label index =
     (if index < 26 then chr (65 + index)
      else concat_res (chr (65 + (index div 26) - 1)) (chr (65 + (index mod 26))))"

text \<open>
  The specification's wording: "the letter at position \<open>k\<close> in the 26-letter alphabet",
  with \<open>A\<close> at position 0 and \<open>Z\<close> at position 25. There is no letter at any other
  position.
\<close>

definition alphabet :: pystr where
  "alphabet = ascii ''ABCDEFGHIJKLMNOPQRSTUVWXYZ''"

definition letter_at :: "int \<Rightarrow> int option" where
  "letter_at k = (if 0 \<le> k \<and> k < 26 then Some (alphabet ! nat k) else None)"

text \<open>
  The label the specification describes for an index: one letter below 26, and from 26
  on the letter at position \<open>index div 26 - 1\<close> followed by the letter at position
  \<open>index mod 26\<close>; none where a position has no letter.
\<close>

definition spec_label :: "int \<Rightarrow> pystr option" where
  "spec_label index =
     (if index < 26 then map_option (\<lambda>c. [c]) (letter_at index)
      else (case (letter_at (index div 26 - 1), letter_at (index mod 26)) of
              (Some a, Some b) \<Rightarrow> Some [a, b]
            | _ \<Rightarrow> None))"

text \<open>
  The capital letters \<open>A\<close> to \<open>Z\<close> are the code points 65 to 90. Among the ASCII
  characters, \<open>str.isalpha\<close> holds of these and of the small letters \<open>a\<close> to \<open>z\<close>.
\<close>

definition is_upper_AZ :: "int \<Rightarrow> bool" where
  "is_upper_AZ c = (of_char CHR ''A'' \<le> c \<and> c \<le> of_char CHR ''Z'')"

definition isalpha_ascii :: "int \<Rightarrow> bool" where
  "isalpha_ascii c =
     ((of_char CHR ''A'' \<le> c \<and> c \<le> of_char CHR ''Z'')
      \<or> (of_char CHR ''a'' \<le> c \<and> c \<le> of_char CHR ''z''))"

section \<open>Images and the drawing calls of Pillow\<close>

text \<open>
  A pixel is an \<open>(R, G, B, A)\<close> tuple; every channel of a stored pixel is an 8-bit value.
  An image has a mode (Pillow's mode string), a size and its pixels. Coordinates are
  \<open>(x, y)\<close> with \<open>(0, 0)\<close> the top left corner; only the pixels with
  \<open>0 \<le> x < width\<close> and \<open>0 \<le> y < height\<close> belong to the image.

  An image opened from a file is loaded lazily: its mode and size are known at once,
  its pixels are decoded when they are first needed, and decoding a damaged file
  raises then. \<open>load_error\<close> is that exception; it is \<open>None\<close> for an image whose pixels
  load, and for every image made in memory.
\<close>

type_synonym rgba = "int \<times> int \<times> int \<times> int"
type_synonym point = "int \<times> int"
type_synonym box = "int \<times> int \<times> int \<times> int"

record image =
  mode :: string
  width :: nat
  height :: nat
  pixels :: "point \<Rightarrow> rgba"
  load_error :: "error option"

definition inside :: "image \<Rightarrow> point \<Rightarrow> bool" where
  "inside im p = (0 \<le> fst p \<and> fst p < int (width im) \<and> 0 \<le> snd p \<and> snd p < int (height im))"

text \<open>A font object: \<open>ImageFont.truetype(path, size)\<close> or \<open>ImageFont.load_default()\<close>.\<close>

datatype font = TrueType string int | DefaultFont

text \<open>
  The calls made on the \<open>ImageDraw.Draw\<close> object of the overlay:
  \<open>draw.line([a, b], fill, width)\<close>, \<open>draw.rectangle(box, fill)\<close> and
  \<open>draw.text(xy, text, fill, font)\<close>.
\<close>

datatype draw_call =
    Line point point rgba int
  | Rectangle box rgba
  | Text point pystr rgba font

text \<open>
  What the program takes from the Pillow installation it runs on. None of it is code of
  gridmaker.py, so it is a parameter of the model:
  \<^item> \<open>truetype_ok path\<close>: \<open>ImageFont.truetype(path, size)\<close> finds and loads the font file
    (otherwise it raises IOError);
  \<^item> \<open>getbbox font text\<close>: the bounding box \<open>(left, top, right, bottom)\<close> of \<open>text\<close> drawn
    at the origin, or the exception raised for a font that has no bounding boxes;
    \<open>draw.textbbox(xy, text, font)\<close> is this box moved by \<open>xy\<close>;
  \<^item> \<open>rejects call\<close>: the exception, if any, with which Pillow refuses the arguments of
    a drawing call (an integer that does not fit the C type of its parameter raises
    OverflowError); a refused call draws nothing;
  \<^item> \<open>stroke a b w p\<close>: pixel \<open>p\<close> belongs to the stroke of
    \<open>draw.line([a, b], width=w)\<close>;
  \<^item> \<open>glyphs font text ink d old\<close>: the value \<open>draw.text\<close> leaves in the pixel at offset
    \<open>d\<close> from the text position, which held \<open>old\<close>, when drawing \<open>text\<close> with colour
    \<open>ink\<close> (the glyph mask blends the ink into the pixel, and leaves it alone where
    the mask is empty);
  \<^item> \<open>to_rgba m px\<close>: the RGBA value \<open>convert("RGBA")\<close> gives a pixel \<open>px\<close> of an image of
    mode \<open>m\<close> other than RGBA.
\<close>

record pillow =
  truetype_ok :: "string \<Rightarrow> bool"
  getbbox :: "font \<Rightarrow> pystr \<Rightarrow> error + box"
  rejects :: "draw_call \<Rightarrow> error option"
  stroke :: "point \<Rightarrow> point \<Rightarrow> int \<Rightarrow> point \<Rightarrow> bool"
  glyphs :: "font \<Rightarrow> pystr \<Rightarrow> rgba \<Rightarrow> point \<Rightarrow> rgba \<Rightarrow> rgba"
  to_rgba :: "string \<Rightarrow> rgba \<Rightarrow> rgba"

text \<open>A colour tuple given as \<open>fill\<close> is stored with each channel clipped to 8 bits.\<close>

definition clip8 :: "int \<Rightarrow> int" where
  "clip8 v = (if v < 0 then 0 else if 255 < v then 255 else v)"

fun ink :: "rgba \<Rightarrow> rgba" where
  "ink (r, g, b, a) = (clip8 r, clip8 g, clip8 b, clip8 a)"

text \<open>\<open>Image.new('RGBA', (w, h), color)\<close>.\<close>

definition new_rgba :: "nat \<Rightarrow> nat \<Rightarrow> rgba \<Rightarrow> image" where
  "new_rgba w h c =
     \<lparr>mode = ''RGBA'', width = w, height = h, pixels = (\<lambda>p. ink c), load_error = None\<rparr>"

text \<open>
  \<open>image.convert("RGBA")\<close> loads the image first, which raises for an image that does not
  load. The result is a copy of an RGBA image, and otherwise the image with every pixel
  converted; the size is kept.
\<close>

definition convert_rgba :: "pillow \<Rightarrow> image \<Rightarrow> error + image" where
  "convert_rgba pil im =
     (case load_error im of
        Some e \<Rightarrow> Inl e
      | None \<Rightarrow>
          Inr (if mode im = ''RGBA'' then im
               else im\<lparr>mode := ''RGBA'', pixels := (\<lambda>p. to_rgba pil (mode im) (pixels im p))\<rparr>))"

text \<open>\<open>draw.textbbox(xy, text, font=font)\<close>.\<close>

fun textbbox :: "pillow \<Rightarrow> point \<Rightarrow> pystr \<Rightarrow> font \<Rightarrow> error + box" where
  "textbbox pil (x, y) text f =
     (case getbbox pil f text of
        Inl e \<Rightarrow> Inl e
      | Inr (l, t, r, b) \<Rightarrow> Inr (l + x, t + y, r + x, b + y))"

text \<open>
  The pixels a call may touch. A rectangle includes both corners of its box. The glyphs
  of a text lie in its bounding box, left and top edge included.
\<close>

fun covers :: "pillow \<Rightarrow> draw_call \<Rightarrow> point \<Rightarrow> bool" where
  "covers pil (Line a b c w) p = stroke pil a b w p"
| "covers pil (Rectangle (x0, y0, x1, y1) c) p =
     (x0 \<le> fst p \<and> fst p \<le> x1 \<and> y0 \<le> snd p \<and> snd p \<le> y1)"
| "covers pil (Text xy text c f) p =
     (case textbbox pil xy text f of
        Inl e \<Rightarrow> False
      | Inr (l, t, r, b) \<Rightarrow> l \<le> fst p \<and> fst p < r \<and> t \<le> snd p \<and> snd p < b)"

text \<open>
  The value a call writes into a pixel it covers. The overlay is an RGBA image drawn on
  in its own mode, so lines and rectangles replace the pixel by the ink, alpha included.
\<close>

fun paint :: "pillow \<Rightarrow> draw_call \<Rightarrow> point \<Rightarrow> rgba \<Rightarrow> rgba" where
  "paint pil (Line a b c w) p old = ink c"
| "paint pil (Rectangle bx c) p old = ink c"
| "paint pil (Text xy text c f) p old =
     glyphs pil f text (ink c) (fst p - fst xy, snd p - snd xy) old"

definition exec_call :: "pillow \<Rightarrow> draw_call \<Rightarrow> image \<Rightarrow> image" where
  "exec_call pil c im =
     im\<lparr>pixels := (\<lambda>p. if inside im p \<and> covers pil c p then paint pil c p (pixels im p)
                         else pixels im p)\<rparr>"

fun run_calls :: "pillow \<Rightarrow> draw_call list \<Rightarrow> image \<Rightarrow> image" where
  "run_calls pil [] im = im"
| "run_calls pil (c # cs) im = run_calls pil cs (exec_call pil c im)"

text \<open>
  \<open>Image.alpha_composite(im1, im2)\<close>: both images must be RGBA and of one size
  (ValueError otherwise). Each pixel of \<open>im2\<close> is put over the pixel of \<open>im1\<close> in
  Pillow's integer arithmetic: a fully transparent source pixel leaves the destination
  pixel as it is.
\<close>

definition shift_div255 :: "int \<Rightarrow> int" where
  "shift_div255 a = (a div 256 + a) div 256"

fun composite_px :: "rgba \<Rightarrow> rgba \<Rightarrow> rgba" where
  "composite_px (dr, dg, db, da) (sr, sg, sb, sa) =
     (if sa = 0 then (dr, dg, db, da)
      else
        let blend = da * (255 - sa);
            outa255 = sa * 255 + blend;
            coef1 = sa * 255 * 255 * 128 div outa255;
            coef2 = 255 * 128 - coef1
        in (shift_div255 (sr * coef1 + dr * coef2 + 128 * 128) div 128,
            shift_div255 (sg * coef1 + dg * coef2 + 128 * 128) div 128,
            shift_div255 (sb * coef1 + db * coef2 + 128 * 128) div 128,
            shift_div255 (outa255 + 128)))"

definition alpha_composite :: "image \<Rightarrow> image \<Rightarrow> error + image" where
  "alpha_composite im1 im2 =
     (if mode im1 \<noteq> ''RGBA'' \<or> mode im2 \<noteq> ''RGBA''
        then Inl (ValueError (ascii ''image has wrong mode''))
      else if width im1 \<noteq> width im2 \<or> height im1 \<noteq> height im2
        then Inl (ValueError (ascii ''images do not match''))
      else Inr (im1\<lparr>pixels := (\<lambda>p. composite_px (pixels im1 p) (pixels im2 p))\<rparr>))"

section \<open>Log records\<close>

text \<open>
  A record of the module's logger: its level and its message. A message built by an
  f-string is kept as a constructor with the values formatted into it; the messages
  logged by the handlers of \<open>main\<close> are texts.
\<close>

datatype level = DEBUG | INFO | WARNING | ERROR

datatype message =
    Could_not_load_TrueType
  | Creating_grid int int
  | Grid_spacing int int
  | Debug_mode_enabled
  | Opening_image pystr
  | Image_details string nat nat
  | Invalid_opacity int
  | Using_default_output pystr
  | Converting_image string
  | Saving_grid pystr
  | Plain pystr

type_synonym log = "(level \<times> message) list"

text \<open>
  The logger passes records of level INFO and above; \<open>--debug\<close> lowers its level to
  DEBUG.
\<close>

definition emit :: "bool \<Rightarrow> level \<Rightarrow> message \<Rightarrow> log" where
  "emit debug_on lv m = (if lv = DEBUG \<and> \<not> debug_on then [] else [(lv, m)])"

section \<open>draw_grid\<close>

text \<open>
  The font: Arial first, then the system fonts in their order, the loop stopping at
  the first one that loads; the default font, with a warning, when none does.
\<close>

definition system_fonts :: "string list" where
  "system_fonts =
     [''/System/Library/Fonts/Helvetica.ttc'',
      ''/usr/share/fonts/truetype/dejavu/DejaVuSans.ttf'',
      ''/Windows/Fonts/arial.ttf'']"

fun try_fonts :: "pillow \<Rightarrow> string list \<Rightarrow> int \<Rightarrow> font option" where
  "try_fonts pil [] font_size = None"
| "try_fonts pil (font_path # rest) font_size =
     (if truetype_ok pil font_path then Some (TrueType font_path font_size)
      else try_fonts pil rest font_size)"

definition load_font :: "pillow \<Rightarrow> int \<Rightarrow> font \<times> log" where
  "load_font pil font_size =
     (if truetype_ok pil ''Arial.ttf'' then (TrueType ''Arial.ttf'' font_size, [])
      else (case try_fonts pil system_fonts font_size of
              Some f \<Rightarrow> (f, [])
            | None \<Rightarrow> (DefaultFont, [(WARNING, Could_not_load_TrueType)])))"

definition font_size_of :: "int \<Rightarrow> int" where
  "font_size_of spacing = max 12 (min 24 (spacing div 5))"

definition grid_font :: "pillow \<Rightarrow> int \<Rightarrow> font" where
  "grid_font pil spacing = fst (load_font pil (font_size_of spacing))"

text \<open>The colour of the grid lines: \<open>color + (opacity,)\<close>.\<close>

fun grid_color_of :: "int \<times> int \<times> int \<Rightarrow> int \<Rightarrow> rgba" where
  "grid_color_of (r, g, b) opacity = (r, g, b, opacity)"

text \<open>The background box of a label: its bounding box with 2 pixels added on each side.\<close>

fun bg_box :: "box \<Rightarrow> box" where
  "bg_box (l, t, r, b) = (l - 2, t - 2, r + 2, b + 2)"

text \<open>
  \<open>a // b\<close> on integers: floor division, ZeroDivisionError when \<open>b\<close> is 0. The counts
  \<open>num_horizontal\<close> and \<open>num_vertical\<close> are computed before either loop starts.
\<close>

definition floordiv :: "int \<Rightarrow> int \<Rightarrow> error + int" where
  "floordiv a b =
     (if b = 0 then Inl (ZeroDivisionError (ascii ''integer division or modulo by zero''))
      else Inr (a div b))"

definition line_counts :: "image \<Rightarrow> int \<Rightarrow> error + int \<times> int" where
  "line_counts im spacing =
     (case floordiv (int (height im)) spacing of
        Inl e \<Rightarrow> Inl e
      | Inr qh \<Rightarrow>
          (case floordiv (int (width im)) spacing of
             Inl e \<Rightarrow> Inl e
           | Inr qw \<Rightarrow> Inr (qh + 1, qw + 1)))"

text \<open>
  The body of a loop is a sequence of steps: a drawing call on the overlay, or an
  exception raised between two calls. Steps are performed in order; the first
  exception, raised between calls or by Pillow refusing a call, ends the run. The
  result is the calls that were made, and the exception if there was one.
\<close>

datatype step = Do draw_call | Raise error

fun perform :: "pillow \<Rightarrow> step list \<Rightarrow> draw_call list \<times> error option" where
  "perform pil [] = ([], None)"
| "perform pil (Raise e # ss) = ([], Some e)"
| "perform pil (Do c # ss) =
     (case rejects pil c of
        Some e \<Rightarrow> ([], Some e)
      | None \<Rightarrow> (case perform pil ss of (cs, r) \<Rightarrow> (c # cs, r)))"

text \<open>
  One pass of the first loop, for row \<open>i\<close>: nothing when \<open>y >= height\<close>; otherwise the
  horizontal line, then the bounding box of the row label \<open>str(i + 1)\<close>, its background
  and the label.
\<close>

definition row_steps ::
  "pillow \<Rightarrow> font \<Rightarrow> int \<Rightarrow> int \<Rightarrow> int \<Rightarrow> rgba \<Rightarrow> int \<Rightarrow> int \<Rightarrow> step list" where
  "row_steps pil fnt w h spacing grid_color thickness i =
     (let y = i * spacing in
      if y \<ge> h then []
      else
        let row_label = str_int (i + 1);
            label_y = y + thickness + 2
        in Do (Line (0, y) (w, y) grid_color thickness) #
           (case textbbox pil (10, label_y) row_label fnt of
              Inl e \<Rightarrow> [Raise e]
            | Inr label_bbox \<Rightarrow>
                [Do (Rectangle (bg_box label_bbox) (255, 255, 255, 200)),
                 Do (Text (10, label_y) row_label (0, 0, 0, 255) fnt)]))"

text \<open>
  One pass of the second loop, for column \<open>i\<close>: nothing when \<open>x >= width\<close>; otherwise the
  vertical line, then \<open>get_column_label(i)\<close>, the bounding box of the label, its
  background and the label.
\<close>

definition col_steps ::
  "pillow \<Rightarrow> font \<Rightarrow> int \<Rightarrow> int \<Rightarrow> int \<Rightarrow> rgba \<Rightarrow> int \<Rightarrow> int \<Rightarrow> step list" where
  "col_steps pil fnt w h spacing grid_color thickness i =
     (let x = i * spacing in
      if x \<ge> w then []
      else
        Do (Line (x, 0) (x, h) grid_color thickness) #
        (case get_column_label i of
           Inl e \<Rightarrow> [Raise e]
         | Inr col_label \<Rightarrow>
             let label_x = x + thickness + 2
             in (case textbbox pil (label_x, 10) col_label fnt of
                   Inl e \<Rightarrow> [Raise e]
                 | Inr label_bbox \<Rightarrow>
                     [Do (Rectangle (bg_box label_bbox) (255, 255, 255, 200)),
                      Do (Text (label_x, 10) col_label (0, 0, 0, 255) fnt)])))"

text \<open>
  The two loops of a run. The first loop runs once the counts exist; the second runs
  when the first has ended without an exception.
\<close>

definition rows_drawn ::
  "pillow \<Rightarrow> image \<Rightarrow> int \<Rightarrow> int \<times> int \<times> int \<Rightarrow> int \<Rightarrow> int \<Rightarrow> draw_call list \<times> error option" where
  "rows_drawn pil im spacing color opacity thickness =
     (case line_counts im spacing of
        Inl e \<Rightarrow> ([], Some e)
      | Inr (num_horizontal, num_vertical) \<Rightarrow>
          perform pil
            (concat (map (row_steps pil (grid_font pil spacing) (int (width im)) (int (height im))
                            spacing (grid_color_of color opacity) thickness)
                         (range num_horizontal))))"

definition cols_drawn ::
  "pillow \<Rightarrow> image \<Rightarrow> int \<Rightarrow> int \<times> int \<times> int \<Rightarrow> int \<Rightarrow> int \<Rightarrow> draw_call list \<times> error option" where
  "cols_drawn pil im spacing color opacity thickness =
     (case line_counts im spacing of
        Inl e \<Rightarrow> ([], Some e)
      | Inr (num_horizontal, num_vertical) \<Rightarrow>
          (case snd (rows_drawn pil im spacing color opacity thickness) of
             Some e \<Rightarrow> ([], Some e)
           | None \<Rightarrow>
               perform pil
                 (concat (map (col_steps pil (grid_font pil spacing) (int (width im)) (int (height im))
                                 spacing (grid_color_of color opacity) thickness)
                              (range num_vertical)))))"

text \<open>All the drawing calls made in one run of \<open>draw_grid\<close>: the first loop, then the second.\<close>

definition grid_trace ::
  "pillow \<Rightarrow> image \<Rightarrow> int \<Rightarrow> int \<times> int \<times> int \<Rightarrow> int \<Rightarrow> int \<Rightarrow> draw_call list" where
  "grid_trace pil im spacing color opacity thickness =
     fst (rows_drawn pil im spacing color opacity thickness)
     @ fst (cols_drawn pil im spacing color opacity thickness)"

text \<open>
  \<open>draw_grid\<close> itself: the overlay is created fully transparent, the two loops draw on
  it, and it is composited onto the image converted to RGBA. An exception (the division
  by a spacing of 0, one raised in a loop, or one of loading the image) leaves the
  function.
\<close>

definition draw_grid ::
  "pillow \<Rightarrow> image \<Rightarrow> int \<Rightarrow> int \<times> int \<times> int \<Rightarrow> int \<Rightarrow> int \<Rightarrow> error + image" where
  "draw_grid pil im spacing color opacity thickness =
     (let grid_overlay = new_rgba (width im) (height im) (0, 0, 0, 0) in
      case cols_drawn pil im spacing color opacity thickness of
        (cs, Some e) \<Rightarrow> Inl e
      | (cs, None) \<Rightarrow>
          (case convert_rgba pil im of
             Inl e \<Rightarrow> Inl e
           | Inr base \<Rightarrow>
               alpha_composite base
                 (run_calls pil (grid_trace pil im spacing color opacity thickness) grid_overlay)))"

text \<open>What \<open>draw_grid\<close> logs: the font warning, and the two INFO lines once the counts exist.\<close>

definition draw_grid_log :: "pillow \<Rightarrow> image \<Rightarrow> int \<Rightarrow> int \<Rightarrow> log" where
  "draw_grid_log pil im spacing thickness =
     snd (load_font pil (font_size_of spacing))
     @ (case line_counts im spacing of
          Inl e \<Rightarrow> []
        | Inr (num_horizontal, num_vertical) \<Rightarrow>
            [(INFO, Creating_grid num_horizontal num_vertical),
             (INFO, Grid_spacing spacing thickness)])"




text \<open>
  The shape of a trace in which every label is drawn as a background and then a text:
  after each line come the rectangle, filled \<open>(255, 255, 255, 200)\<close> and of the box of
  the text padded by 2, and the text in \<open>(0, 0, 0, 255)\<close>. A run that an exception ended
  may stop after a line, or after a background.
\<close>

fun label_style :: "pillow \<Rightarrow> draw_call list \<Rightarrow> bool" where
  "label_style pil [] = True"
| "label_style pil [Line a b c w] = True"
| "label_style pil [Line a b c w, Rectangle bx rc] = (rc = (255, 255, 255, 200))"
| "label_style pil (Line a b c w # Rectangle bx rc # Text xy s tc f # rest) =
     (rc = (255, 255, 255, 200) \<and> tc = (0, 0, 0, 255)
      \<and> (case textbbox pil xy s f of Inl e \<Rightarrow> False | Inr bb \<Rightarrow> bx = bg_box bb)
      \<and> label_style pil rest)"
| "label_style pil cs = False"

section \<open>A small Pillow to run the model on\<close>

text \<open>
  A stand-in for an installation, used where the model is run on concrete inputs: no
  TrueType font file is found, so the default font is used; every character is a cell
  6 pixels wide and 11 high, inked in its inner part; no call is refused; the stroke of
  a horizontal or vertical line of width \<open>w\<close> is the band of that width along it; other
  modes convert pixel by pixel without change.
\<close>

fun cell_stroke :: "point \<Rightarrow> point \<Rightarrow> int \<Rightarrow> point \<Rightarrow> bool" where
  "cell_stroke (x0, y0) (x1, y1) w (x, y) =
     (let t = max 1 w in
      if y0 = y1 then min x0 x1 \<le> x \<and> x \<le> max x0 x1 \<and> y0 - (t - 1) div 2 \<le> y \<and> y \<le> y0 + t div 2
      else if x0 = x1 then min y0 y1 \<le> y \<and> y \<le> max y0 y1 \<and> x0 - (t - 1) div 2 \<le> x \<and> x \<le> x0 + t div 2
      else False)"

fun cell_glyphs :: "font \<Rightarrow> pystr \<Rightarrow> rgba \<Rightarrow> point \<Rightarrow> rgba \<Rightarrow> rgba" where
  "cell_glyphs f text c (dx, dy) old =
     (if 1 \<le> dx mod 6 \<and> dx mod 6 \<le> 4 \<and> 1 \<le> dy \<and> dy \<le> 9 then c else old)"

definition cell_pillow :: pillow where
  "cell_pillow =
     \<lparr>truetype_ok = (\<lambda>path. False),
      getbbox = (\<lambda>f text. Inr (0, 0, 6 * int (length text), 11)),
      rejects = (\<lambda>c. None),
      stroke = cell_stroke,
      glyphs = cell_glyphs,
      to_rgba = (\<lambda>m px. px)\<rparr>"

section \<open>Notions used in the statements\<close>

text \<open>The calls a sequence of steps makes when nothing is raised and no call is refused.\<close>

fun step_calls :: "step list \<Rightarrow> draw_call list" where
  "step_calls [] = []"
| "step_calls (Do c # ss) = c # step_calls ss"
| "step_calls (Raise e # ss) = step_calls ss"

text \<open>The ink of a call that fills its pixels with one colour: a line or a rectangle.\<close>

fun flat_fill :: "draw_call \<Rightarrow> rgba option" where
  "flat_fill (Line a b c w) = Some c"
| "flat_fill (Rectangle bx c) = Some c"
| "flat_fill (Text xy s c f) = None"

fun is_line :: "draw_call \<Rightarrow> bool" where
  "is_line (Line a b c w) = True"
| "is_line (Rectangle bx c) = False"
| "is_line (Text xy s c f) = False"

text \<open>The pixel at a point of the image a call returned, if it returned one.\<close>

definition pixel_of :: "error + image \<Rightarrow> point \<Rightarrow> rgba option" where
  "pixel_of r p = (case r of Inl e \<Rightarrow> None | Inr im \<Rightarrow> Some (pixels im p))"

text \<open>An 8-bit colour: each channel from 0 to 255.\<close>

fun eight_bit :: "int \<times> int \<times> int \<Rightarrow> bool" where
  "eight_bit (r, g, b) = (0 \<le> r \<and> r \<le> 255 \<and> 0 \<le> g \<and> g \<le> 255 \<and> 0 \<le> b \<and> b \<le> 255)"

text \<open>A call returned a value, rather than raising.\<close>

definition returned :: "error + 'a \<Rightarrow> bool" where
  "returned r = (case r of Inl e \<Rightarrow> False | Inr x \<Rightarrow> True)"

section \<open>main\<close>

text \<open>
  The namespace \<open>parse_args\<close> returns: the input path, the four grid parameters, the
  output path if one was given, and the debug flag. \<open>--color\<close> takes exactly three
  integers.
\<close>

record args =
  args_input_image :: pystr
  args_spacing :: int
  args_color :: "int \<times> int \<times> int"
  args_opacity :: int
  args_thickness :: int
  args_output :: "pystr option"
  args_debug :: bool

text \<open>
  What a run of \<open>main\<close> takes from outside the program:
  \<^item> \<open>parse_args\<close>: the namespace parsed from the command line, or the status with which
    argparse leaves the interpreter by SystemExit (2 after a usage error, 0 after
    \<open>--help\<close>); SystemExit is not an \<open>Exception\<close>, and the call is outside the \<open>try\<close>;
  \<^item> \<open>path_exists\<close>: \<open>os.path.exists\<close>;
  \<^item> \<open>image_open\<close>: \<open>Image.open\<close>, the image or the exception raised;
  \<^item> \<open>default_base\<close>: \<open>os.path.splitext(os.path.basename(path))[0]\<close>;
  \<^item> \<open>image_save\<close>: the exception raised by \<open>save(path, format="PNG")\<close>, if any;
  \<^item> the Pillow installation.
  An exception that is not an \<open>Exception\<close> and comes from outside the program, such as
  KeyboardInterrupt, is no part of a run as modelled here.
\<close>

record env =
  env_pillow :: pillow
  parse_args :: "int + args"
  path_exists :: "pystr \<Rightarrow> bool"
  image_open :: "pystr \<Rightarrow> error + image"
  default_base :: "pystr \<Rightarrow> pystr"
  image_save :: "image \<Rightarrow> pystr \<Rightarrow> error option"

text \<open>
  What a run that returns leaves behind: the value \<open>main\<close> returns, the lines printed to
  standard output and to standard error, the records logged, and the file saved.
\<close>

record outcome =
  exit_code :: int
  stdout :: "pystr list"
  stderr :: "pystr list"
  logged :: log
  saved :: "(pystr \<times> image) option"

datatype run = Returns outcome | Exits int

text \<open>The opacity after validation, and the output path after defaulting.\<close>

definition checked_opacity :: "int \<Rightarrow> int" where
  "checked_opacity opacity = (if \<not> (0 \<le> opacity \<and> opacity \<le> 255) then 128 else opacity)"

definition output_path :: "env \<Rightarrow> args \<Rightarrow> pystr" where
  "output_path ev a =
     (case args_output a of
        None \<Rightarrow> default_base ev (args_input_image a) @ ascii ''_grid.png''
      | Some out \<Rightarrow> out)"

text \<open>\<open>if image.mode != 'RGBA': image = image.convert('RGBA')\<close>.\<close>

definition ensure_rgba :: "pillow \<Rightarrow> image \<Rightarrow> error + image" where
  "ensure_rgba pil im = (if mode im \<noteq> ''RGBA'' then convert_rgba pil im else Inr im)"

text \<open>
  The body of the \<open>try\<close> statement: the records it logs, and the exception that leaves
  it or, when it completes, the output path and the image saved there.
\<close>

definition main_try :: "env \<Rightarrow> args \<Rightarrow> log \<times> (error + pystr \<times> image)" where
  "main_try ev a =
     (let path = args_input_image a; dbg = args_debug a; pil = env_pillow ev in
      if \<not> path_exists ev path
        then ([], Inl (FileNotFoundError (ascii ''Input file not found: '' @ path)))
      else
        (case image_open ev path of
           Inl e \<Rightarrow>
             ([(INFO, Opening_image path)],
              Inl (ValueError (ascii ''Failed to open image: '' @ str_of e)))
         | Inr opened \<Rightarrow>
             let log1 =
                   [(INFO, Opening_image path)]
                   @ emit dbg DEBUG (Image_details (mode opened) (width opened) (height opened))
                   @ (if \<not> (0 \<le> args_opacity a \<and> args_opacity a \<le> 255)
                        then [(WARNING, Invalid_opacity (args_opacity a))] else [])
                   @ (case args_output a of
                        None \<Rightarrow> emit dbg DEBUG (Using_default_output (output_path ev a))
                      | Some out \<Rightarrow> [])
                   @ (if mode opened \<noteq> ''RGBA''
                        then emit dbg DEBUG (Converting_image (mode opened)) else [])
             in (case ensure_rgba pil opened of
                   Inl e \<Rightarrow> (log1, Inl e)
                 | Inr rgba_image \<Rightarrow>
                     let log2 = log1 @ draw_grid_log pil rgba_image (args_spacing a) (args_thickness a)
                     in (case draw_grid pil rgba_image (args_spacing a) (args_color a)
                                (checked_opacity (args_opacity a)) (args_thickness a) of
                           Inl e \<Rightarrow> (log2, Inl e)
                         | Inr grid_image \<Rightarrow>
                             (case image_save ev grid_image (output_path ev a) of
                                Some e \<Rightarrow> (log2 @ [(INFO, Saving_grid (output_path ev a))], Inl e)
                              | None \<Rightarrow>
                                  (log2 @ [(INFO, Saving_grid (output_path ev a))],
                                   Inr (output_path ev a, grid_image)))))))"

text \<open>
  The three handlers: what is logged at level ERROR and what is printed to standard
  error for an exception. FileNotFoundError and ValueError have handlers of their own;
  every other exception reaches \<open>except Exception\<close>.
\<close>

fun error_log :: "error \<Rightarrow> pystr" where
  "error_log (FileNotFoundError m) = m"
| "error_log (ValueError m) = m"
| "error_log (ZeroDivisionError m) = ascii ''Unexpected error: '' @ m"
| "error_log (OverflowError m) = ascii ''Unexpected error: '' @ m"
| "error_log (OtherException m) = ascii ''Unexpected error: '' @ m"

fun error_print :: "error \<Rightarrow> pystr" where
  "error_print (FileNotFoundError m) = ascii ''Error: '' @ m"
| "error_print (ValueError m) = ascii ''Error: '' @ m"
| "error_print (ZeroDivisionError m) = ascii ''Unexpected error: '' @ m"
| "error_print (OverflowError m) = ascii ''Unexpected error: '' @ m"
| "error_print (OtherException m) = ascii ''Unexpected error: '' @ m"

text \<open>\<open>main\<close> from the parsed namespace on, and \<open>main\<close> itself.\<close>

definition main_parsed :: "env \<Rightarrow> args \<Rightarrow> outcome" where
  "main_parsed ev a =
     (let log0 = emit (args_debug a) DEBUG Debug_mode_enabled in
      case main_try ev a of
        (lg, Inr (out, img)) \<Rightarrow>
          \<lparr>exit_code = 0,
           stdout = [ascii ''Successfully created grid overlay: '' @ out],
           stderr = [],
           logged = log0 @ lg,
           saved = Some (out, img)\<rparr>
      | (lg, Inl e) \<Rightarrow>
          \<lparr>exit_code = 1,
           stdout = [],
           stderr = [error_print e],
           logged = log0 @ lg @ [(ERROR, Plain (error_log e))],
           saved = None\<rparr>)"

definition main :: "env \<Rightarrow> run" where
  "main ev = (case parse_args ev of Inl status \<Rightarrow> Exits status | Inr a \<Rightarrow> Returns (main_parsed ev a))"

text \<open>
  An environment to run \<open>main\<close> in: the command line is parsed to the given namespace,
  every path exists and opens as an opaque black RGBA image of 20 by 20 pixels, saving
  succeeds, and Pillow is the stand-in above.
\<close>

definition cell_env :: "args \<Rightarrow> env" where
  "cell_env a =
     \<lparr>env_pillow = cell_pillow,
      parse_args = Inr a,
      path_exists = (\<lambda>p. True),
      image_open = (\<lambda>p. Inr (new_rgba 20 20 (0, 0, 0, 255))),
      default_base = (\<lambda>p. takeWhile (\<lambda>c. c \<noteq> 46) p),
      image_save = (\<lambda>im p. None)\<rparr>"

definition cell_args :: "int \<Rightarrow> args" where
  "cell_args opacity =
     \<lparr>args_input_image = ascii ''photo.png'',
      args_spacing = 15,
      args_color = (0, 0, 255),
      args_opacity = opacity,
      args_thickness = 1,
      args_output = None,
      args_debug = False\<rparr>"

text \<open>The same environment with no file at any path.\<close>

definition empty_env :: "args \<Rightarrow> env" where
  "empty_env a = (cell_env a)\<lparr>path_exists := (\<lambda>p. False)\<rparr>"

section \<open>Properties of the column labels\<close>

lemma alphabet_nth:
  assumes "0 \<le> k" "k < 26"
  shows "alphabet ! nat k = 65 + k"
proof -
  from assms have "k = 0 \<or> k = 1 \<or> k = 2 \<or> k = 3 \<or> k = 4 \<or> k = 5 \<or> k = 6 \<or> k = 7 \<or> k = 8 \<or> k = 9 \<or> k = 10 \<or> k = 11 \<or> k = 12 \<or> k = 13 \<or> k = 14 \<or> k = 15 \<or> k = 16 \<or> k = 17 \<or> k = 18 \<or> k = 19 \<or> k = 20 \<or> k = 21 \<or> k = 22 \<or> k = 23 \<or> k = 24 \<or> k = 25"
    by arith
  then show ?thesis
    by (elim disjE) (simp_all add: alphabet_def ascii_def)
qed

lemma letter_at_Some:
  "0 \<le> k \<Longrightarrow> k < 26 \<Longrightarrow> letter_at k = Some (65 + k)"
  by (simp add: letter_at_def alphabet_nth)

lemma chr_in_range: "0 \<le> i \<Longrightarrow> i < 1114112 \<Longrightarrow> chr i = Inr [i]"
  by (simp add: chr_def)

lemma chr_second: "chr (65 + index mod 26) = Inr [65 + index mod 26]"
proof -
  have "0 \<le> index mod 26" "index mod 26 < 26" by simp_all
  then have "0 \<le> 65 + index mod 26" "65 + index mod 26 < 1114112" by linarith+
  then show ?thesis by (rule chr_in_range)
qed

lemma get_column_label_small:
  "index < 26 \<Longrightarrow> get_column_label index = chr (65 + index)"
  by (simp add: get_column_label_def)

lemma get_column_label_large:
  "26 \<le> index \<Longrightarrow>
   get_column_label index = concat_res (chr (64 + index div 26)) (Inr [65 + index mod 26])"
  by (simp add: get_column_label_def chr_second)

lemma get_column_label_two:
  assumes "26 \<le> index" "index < 28965248"
  shows "get_column_label index = Inr [64 + index div 26, 65 + index mod 26]"
proof -
  have "1 \<le> index div 26" using assms(1) by simp
  moreover have "index div 26 < 1114048" using assms(2) by simp
  ultimately have "chr (64 + index div 26) = Inr [64 + index div 26]"
    by (intro chr_in_range) simp_all
  then show ?thesis using assms(1)
    by (simp add: get_column_label_large concat_res_def)
qed

lemma get_column_label_value_error:
  assumes "28965248 \<le> index" "index < 55834573184"
  shows "get_column_label index = Inl chr_error"
proof -
  have "1114048 \<le> index div 26" using assms(1) by simp
  moreover have "index div 26 < 2147483584" using assms(2) by simp
  ultimately have "chr (64 + index div 26) = Inl chr_error"
    by (simp add: chr_def)
  then show ?thesis using assms(1)
    by (simp add: get_column_label_large concat_res_def)
qed

lemma get_column_label_overflow:
  assumes "55834573184 \<le> index"
  shows "get_column_label index = Inl overflow_error"
proof -
  have "2147483584 \<le> index div 26" using assms by simp
  then have "chr (64 + index div 26) = Inl overflow_error"
    by (simp add: chr_def)
  then show ?thesis using assms
    by (simp add: get_column_label_large concat_res_def)
qed

lemma get_column_label_raises:
  assumes "28965248 \<le> index"
  shows "\<exists>e. get_column_label index = Inl e"
  using assms get_column_label_value_error get_column_label_overflow
  by (cases "index < 55834573184") auto

lemma get_column_label_returns:
  assumes "0 \<le> index" "index < 28965248"
  shows "\<exists>s. get_column_label index = Inr s"
  using assms
  by (cases "index < 26") (simp_all add: get_column_label_small chr_def get_column_label_two)

lemma get_column_label_Inr_cases:
  assumes "get_column_label index = Inr s"
  shows "(index < 26 \<and> s = [65 + index]) \<or>
         (26 \<le> index \<and> s = [64 + index div 26, 65 + index mod 26])"
proof (cases "index < 26")
  case True
  with assms show ?thesis by (auto simp add: get_column_label_def chr_def split: if_splits)
next
  case False
  with assms show ?thesis
    by (auto simp add: get_column_label_def chr_def concat_res_def split: if_splits sum.splits)
qed

lemma divmod26_inj:
  fixes i j :: int
  assumes "i div 26 = j div 26" "i mod 26 = j mod 26"
  shows "i = j"
proof -
  have "i = 26 * (i div 26) + i mod 26" by simp
  also have "\<dots> = 26 * (j div 26) + j mod 26" using assms by simp
  also have "\<dots> = j" by simp
  finally show ?thesis .
qed

lemma label_inj:
  assumes "get_column_label i = Inr s" "get_column_label j = Inr s"
  shows "i = j"
  using get_column_label_Inr_cases[OF assms(1)] get_column_label_Inr_cases[OF assms(2)]
  by (auto intro: divmod26_inj)

lemma label_below_702:
  assumes "0 \<le> index" "index < 702"
  shows "get_column_label index =
           Inr (if index < 26 then [alphabet ! nat index]
                else [alphabet ! nat (index div 26 - 1), alphabet ! nat (index mod 26)])"
proof (cases "index < 26")
  case True
  with assms show ?thesis by (simp add: get_column_label_small chr_def alphabet_nth)
next
  case False
  then have "1 \<le> index div 26" by simp
  moreover have "index div 26 < 27" using assms(2) by simp
  moreover have "0 \<le> index mod 26" "index mod 26 < 26" by simp_all
  ultimately show ?thesis using False assms
    by (simp add: get_column_label_two alphabet_nth)
qed

lemma spec_label_below_702:
  assumes "0 \<le> index" "index < 702"
  shows "spec_label index =
           Some (if index < 26 then [alphabet ! nat index]
                 else [alphabet ! nat (index div 26 - 1), alphabet ! nat (index mod 26)])"
proof (cases "index < 26")
  case True
  with assms show ?thesis by (simp add: spec_label_def letter_at_def)
next
  case False
  then have "1 \<le> index div 26" by simp
  moreover have "index div 26 < 27" using assms(2) by simp
  moreover have "0 \<le> index mod 26" "index mod 26 < 26" by simp_all
  ultimately show ?thesis using False
    by (simp add: spec_label_def letter_at_def)
qed

text \<open>
  Claim C1, as amended. For every index from 0 up to, but not including, 702,
  \<open>get_column_label\<close> returns the label the specification describes: below 26 the
  single letter at position \<open>index\<close> of the alphabet, and otherwise the two-letter string
  of the letter at position \<open>index div 26 - 1\<close> followed by the letter at position
  \<open>index mod 26\<close>. In particular the labels of 0, 25, 26, 51, 52, 77 and 78 are
  A, Z, AA, AZ, BA, BZ and CA.
\<close>

theorem column_label_formula:
  assumes "0 \<le> index" "index < 702"
  shows "get_column_label index =
           Inr (if index < 26 then [alphabet ! nat index]
                else [alphabet ! nat (index div 26 - 1), alphabet ! nat (index mod 26)])
         \<and> spec_label index =
           Some (if index < 26 then [alphabet ! nat index]
                 else [alphabet ! nat (index div 26 - 1), alphabet ! nat (index mod 26)])
         \<and> get_column_label 0 = Inr (ascii ''A'')
         \<and> get_column_label 25 = Inr (ascii ''Z'')
         \<and> get_column_label 26 = Inr (ascii ''AA'')
         \<and> get_column_label 51 = Inr (ascii ''AZ'')
         \<and> get_column_label 52 = Inr (ascii ''BA'')
         \<and> get_column_label 77 = Inr (ascii ''BZ'')
         \<and> get_column_label 78 = Inr (ascii ''CA'')"
proof -
  have "get_column_label 0 = Inr (ascii ''A'')"
    by (simp add: get_column_label_def chr_def ascii_def)
  moreover have "get_column_label 25 = Inr (ascii ''Z'')"
    by (simp add: get_column_label_def chr_def ascii_def)
  moreover have "get_column_label 26 = Inr (ascii ''AA'')"
    by (simp add: get_column_label_def chr_def concat_res_def ascii_def)
  moreover have "get_column_label 51 = Inr (ascii ''AZ'')"
    by (simp add: get_column_label_def chr_def concat_res_def ascii_def)
  moreover have "get_column_label 52 = Inr (ascii ''BA'')"
    by (simp add: get_column_label_def chr_def concat_res_def ascii_def)
  moreover have "get_column_label 77 = Inr (ascii ''BZ'')"
    by (simp add: get_column_label_def chr_def concat_res_def ascii_def)
  moreover have "get_column_label 78 = Inr (ascii ''CA'')"
    by (simp add: get_column_label_def chr_def concat_res_def ascii_def)
  ultimately show ?thesis
    using label_below_702[OF assms] spec_label_below_702[OF assms] by blast
qed

theorem column_label_formula_witness:
  "(0::int) \<le> 700 \<and> (700::int) < 702
   \<and> get_column_label 700 = Inr [alphabet ! 25, alphabet ! 24]
   \<and> spec_label 700 = Some [alphabet ! 25, alphabet ! 24]"
  using column_label_formula [of 700] by simp

text \<open>
  Claim C1 as stated fails at index 702: position \<open>702 div 26 - 1 = 26\<close> has no letter,
  and the function returns the string \<open>[A\<close>, whose first character is not a letter.
\<close>

theorem column_label_702_counterexample:
  "(0::int) \<le> 702 \<and> spec_label 702 = None
   \<and> get_column_label 702 = Inr (ascii ''[A'')
   \<and> \<not> isalpha_ascii (of_char CHR ''['')"
  by (simp add: spec_label_def letter_at_def get_column_label_def chr_def concat_res_def
        ascii_def isalpha_ascii_def)

text \<open>
  Claim C5, as amended. For two distinct column indices from 0 up to, but not including,
  28965248, \<open>get_column_label\<close> returns a label for each and the two labels differ: on
  these indices no index is skipped and no label is used twice.
\<close>

theorem column_label_injective:
  assumes "0 \<le> i" "i < 28965248" "0 \<le> j" "j < 28965248" "i \<noteq> j"
  shows "\<exists>s t. get_column_label i = Inr s \<and> get_column_label j = Inr t \<and> s \<noteq> t"
proof -
  from get_column_label_returns[OF assms(1,2)] obtain s where s: "get_column_label i = Inr s"
    by blast
  from get_column_label_returns[OF assms(3,4)] obtain t where t: "get_column_label j = Inr t"
    by blast
  have "s \<noteq> t"
  proof
    assume "s = t"
    with s t have "i = j" using label_inj by blast
    with assms(5) show False by simp
  qed
  with s t show ?thesis by blast
qed

theorem column_label_injective_witness:
  "(0::int) \<le> 701 \<and> (701::int) < 28965248 \<and> (0::int) \<le> 702 \<and> (702::int) < 28965248
   \<and> (701::int) \<noteq> 702
   \<and> (\<exists>s t. get_column_label 701 = Inr s \<and> get_column_label 702 = Inr t \<and> s \<noteq> t)"
  using column_label_injective [of 701 702] by simp

text \<open>
  Claim C5 as stated fails: the distinct indices 28965248 and 28965249 get no label at
  all, \<open>get_column_label\<close> raising the same ValueError for both.
\<close>

theorem column_label_same_error_counterexample:
  "(0::int) \<le> 28965248 \<and> (0::int) \<le> 28965249 \<and> (28965248::int) \<noteq> 28965249
   \<and> get_column_label 28965248 = Inl chr_error
   \<and> get_column_label 28965249 = Inl chr_error
   \<and> get_column_label 28965248 = get_column_label 28965249"
  by (simp add: get_column_label_def chr_def concat_res_def)

text \<open>
  Claim C10, as amended. From index 26 up to, but not including, 702 the label is two
  letters of \<open>A\<close> to \<open>Z\<close>. From 702 up to, but not including, 28965248 the label is two
  characters of which the first, \<open>chr(65 + index div 26 - 1)\<close>, lies beyond \<open>Z\<close>, so the
  label has a character outside \<open>A\<close> to \<open>Z\<close>. From 28965248 on there is no label: \<open>chr\<close>
  raises ValueError, and OverflowError from 55834573184 on. So for an index of at least
  0, a label of letters \<open>A\<close> to \<open>Z\<close> only is returned exactly when the index is below 702.
\<close>

theorem column_label_alphabetic_range:
  "(26 \<le> index \<and> index < 702 \<longrightarrow>
      (\<exists>a b. get_column_label index = Inr [a, b] \<and> is_upper_AZ a \<and> is_upper_AZ b))
   \<and> (702 \<le> index \<and> index < 28965248 \<longrightarrow>
      (\<exists>a b. get_column_label index = Inr [a, b] \<and> a = 65 + index div 26 - 1
             \<and> of_char CHR ''Z'' < a \<and> \<not> is_upper_AZ a))
   \<and> (28965248 \<le> index \<and> index < 55834573184 \<longrightarrow> get_column_label index = Inl chr_error)
   \<and> (55834573184 \<le> index \<longrightarrow> get_column_label index = Inl overflow_error)
   \<and> (0 \<le> index \<longrightarrow>
        ((\<exists>s. get_column_label index = Inr s \<and> list_all is_upper_AZ s) \<longleftrightarrow> index < 702))"
proof -
  have m: "0 \<le> index mod 26" "index mod 26 < 26" by simp_all
  have p0: "get_column_label index = Inr [65 + index] \<and> is_upper_AZ (65 + index)"
    if "0 \<le> index" "index < 26"
    using that by (simp add: get_column_label_small chr_def is_upper_AZ_def)
  have p1: "\<exists>a b. get_column_label index = Inr [a, b] \<and> is_upper_AZ a \<and> is_upper_AZ b"
    if "26 \<le> index" "index < 702"
  proof -
    have "1 \<le> index div 26" "index div 26 < 27" using that by simp_all
    with m that show ?thesis
      by (simp add: get_column_label_two is_upper_AZ_def)
  qed
  have p2: "\<exists>a b. get_column_label index = Inr [a, b] \<and> a = 65 + index div 26 - 1
                   \<and> of_char CHR ''Z'' < a \<and> \<not> is_upper_AZ a"
    if "702 \<le> index" "index < 28965248"
  proof -
    have "27 \<le> index div 26" using that by simp
    with that show ?thesis
      by (simp add: get_column_label_two is_upper_AZ_def)
  qed
  have p3: "get_column_label index = Inl chr_error" if "28965248 \<le> index" "index < 55834573184"
    using that by (rule get_column_label_value_error)
  have p4: "get_column_label index = Inl overflow_error" if "55834573184 \<le> index"
    using that by (rule get_column_label_overflow)
  have p5: "(\<exists>s. get_column_label index = Inr s \<and> list_all is_upper_AZ s) \<longleftrightarrow> index < 702"
    if nonneg: "0 \<le> index"
  proof
    assume "\<exists>s. get_column_label index = Inr s \<and> list_all is_upper_AZ s"
    then obtain s where s: "get_column_label index = Inr s" "list_all is_upper_AZ s" by blast
    show "index < 702"
    proof (rule ccontr)
      assume "\<not> index < 702"
      then have ge: "702 \<le> index" by simp
      show False
      proof (cases "index < 28965248")
        case True
        from p2[OF ge True] s show False by auto
      next
        case False
        then have "\<exists>e. get_column_label index = Inl e"
          by (intro get_column_label_raises) simp
        with s show False by auto
      qed
    qed
  next
    assume lt: "index < 702"
    show "\<exists>s. get_column_label index = Inr s \<and> list_all is_upper_AZ s"
    proof (cases "index < 26")
      case True
      from p0[OF nonneg True] show ?thesis by auto
    next
      case False
      then have "26 \<le> index" by simp
      from p1[OF this lt] show ?thesis by auto
    qed
  qed
  from p1 p2 p3 p4 p5 show ?thesis by blast
qed

theorem column_label_alphabetic_range_witness:
  "(26::int) \<le> 701 \<and> (701::int) < 702
   \<and> (\<exists>a b. get_column_label 701 = Inr [a, b] \<and> is_upper_AZ a \<and> is_upper_AZ b)
   \<and> (702::int) \<le> 702 \<and> (702::int) < 28965248
   \<and> (\<exists>a b. get_column_label 702 = Inr [a, b] \<and> a = 65 + 702 div 26 - 1
             \<and> of_char CHR ''Z'' < a \<and> \<not> is_upper_AZ a)
   \<and> (28965248::int) \<le> 28965248 \<and> (28965248::int) < 55834573184
   \<and> get_column_label 28965248 = Inl chr_error
   \<and> (55834573184::int) \<le> 55834573184
   \<and> get_column_label 55834573184 = Inl overflow_error
   \<and> (0::int) \<le> 3
   \<and> (\<exists>s. get_column_label 3 = Inr s \<and> list_all is_upper_AZ s)"
  using column_label_alphabetic_range [of 701] column_label_alphabetic_range [of 702]
    column_label_alphabetic_range [of 28965248] column_label_alphabetic_range [of 55834573184]
    column_label_alphabetic_range [of 3]
  by simp

text \<open>
  Claim C10 as stated fails twice. At index 858, which is at least 702, the label is
  \<open>aA\<close>: its first character lies beyond \<open>Z\<close>, yet both characters are alphabetic. At
  index 30000000 there is no label to contain any character, since \<open>chr\<close> raises
  ValueError.
\<close>

theorem column_label_beyond_Z_counterexample:
  "(702::int) \<le> 858 \<and> get_column_label 858 = Inr (ascii ''aA'')
   \<and> list_all isalpha_ascii (ascii ''aA'')
   \<and> (702::int) \<le> 30000000 \<and> get_column_label 30000000 = Inl chr_error"
  by (simp add: get_column_label_def chr_def concat_res_def ascii_def isalpha_ascii_def)

section \<open>Running drawing calls\<close>

lemma range_set: "set (range n) = {i. 0 \<le> i \<and> i < n}"
  by (auto simp add: range_def)

lemma run_calls_append:
  "run_calls pil (cs @ ds) im = run_calls pil ds (run_calls pil cs im)"
  by (induction cs arbitrary: im) simp_all

lemma exec_call_shape [simp]:
  "mode (exec_call pil c im) = mode im"
  "width (exec_call pil c im) = width im"
  "height (exec_call pil c im) = height im"
  "load_error (exec_call pil c im) = load_error im"
  by (simp_all add: exec_call_def)

lemma exec_call_inside [simp]: "inside (exec_call pil c im) p = inside im p"
  by (simp add: inside_def)

lemma run_calls_shape [simp]:
  "mode (run_calls pil cs im) = mode im"
  "width (run_calls pil cs im) = width im"
  "height (run_calls pil cs im) = height im"
  "load_error (run_calls pil cs im) = load_error im"
  by (induction cs arbitrary: im) simp_all

lemma run_calls_inside [simp]: "inside (run_calls pil cs im) p = inside im p"
  by (simp add: inside_def)

lemma new_rgba_shape [simp]:
  "mode (new_rgba w h c) = ''RGBA''"
  "width (new_rgba w h c) = w"
  "height (new_rgba w h c) = h"
  "pixels (new_rgba w h c) p = ink c"
  "load_error (new_rgba w h c) = None"
  by (simp_all add: new_rgba_def)

lemma new_rgba_inside [simp]:
  "inside (new_rgba w h c) p = (0 \<le> fst p \<and> fst p < int w \<and> 0 \<le> snd p \<and> snd p < int h)"
  by (simp add: inside_def)

lemma convert_rgba_Inr:
  assumes "convert_rgba pil im = Inr base"
  shows "mode base = ''RGBA''" "width base = width im" "height base = height im"
    "load_error im = None"
    "mode im = ''RGBA'' \<Longrightarrow> base = im"
  using assms by (auto simp add: convert_rgba_def split: option.splits if_splits)

lemma convert_rgba_loaded:
  "load_error im = None \<Longrightarrow> \<exists>base. convert_rgba pil im = Inr base"
  by (simp add: convert_rgba_def)

text \<open>A pixel that no call covers keeps its value.\<close>

lemma run_calls_frame:
  assumes "\<forall>c \<in> set cs. \<not> (inside im p \<and> covers pil c p)"
  shows "pixels (run_calls pil cs im) p = pixels im p"
  using assms
proof (induction cs arbitrary: im)
  case Nil
  then show ?case by simp
next
  case (Cons c cs)
  have "pixels (run_calls pil cs (exec_call pil c im)) p = pixels (exec_call pil c im) p"
    using Cons.prems by (intro Cons.IH) simp
  also have "\<dots> = pixels im p"
    using Cons.prems by (auto simp add: exec_call_def)
  finally show ?case by simp
qed

text \<open>A pixel holds what the last call covering it has written.\<close>

lemma run_calls_last:
  assumes "inside im p" "covers pil c p" "\<forall>d \<in> set post. \<not> covers pil d p"
  shows "pixels (run_calls pil (pre @ c # post) im) p
         = paint pil c p (pixels (run_calls pil pre im) p)"
proof -
  have "pixels (run_calls pil (pre @ c # post) im) p
        = pixels (run_calls pil post (exec_call pil c (run_calls pil pre im))) p"
    by (simp add: run_calls_append)
  also have "\<dots> = pixels (exec_call pil c (run_calls pil pre im)) p"
    using assms(3) by (intro run_calls_frame) simp
  also have "\<dots> = paint pil c p (pixels (run_calls pil pre im) p)"
    using assms(1,2) by (simp add: exec_call_def)
  finally show ?thesis .
qed

text \<open>
  A pixel that holds the ink \<open>v\<close> keeps it as long as every call covering it is a line
  or rectangle of that ink.
\<close>

lemma exec_call_same_ink:
  assumes "pixels im p = ink v" "covers pil c p \<longrightarrow> flat_fill c = Some v"
  shows "pixels (exec_call pil c im) p = ink v"
  using assms by (cases c) (auto simp add: exec_call_def)

lemma run_calls_same_ink:
  assumes "pixels im p = ink v" "\<forall>c \<in> set cs. covers pil c p \<longrightarrow> flat_fill c = Some v"
  shows "pixels (run_calls pil cs im) p = ink v"
  using assms
proof (induction cs arbitrary: im)
  case Nil
  then show ?case by simp
next
  case (Cons c cs)
  have "pixels (exec_call pil c im) p = ink v"
    using Cons.prems by (intro exec_call_same_ink) simp_all
  then show ?case using Cons.prems by (simp add: Cons.IH)
qed

section \<open>Performing steps\<close>

lemma step_calls_append: "step_calls (ss @ ts) = step_calls ss @ step_calls ts"
  by (induction ss rule: step_calls.induct) simp_all

lemma step_calls_concat: "step_calls (concat sss) = concat (map step_calls sss)"
  by (induction sss) (simp_all add: step_calls_append)


lemma perform_Do_list:
  assumes "\<forall>c \<in> set cs. rejects pil c = None"
  shows "perform pil (map Do cs @ ss) = (cs @ fst (perform pil ss), snd (perform pil ss))"
  using assms by (induction cs) (simp_all split: prod.splits)

lemma perform_all_Do:
  assumes "\<forall>c \<in> set cs. rejects pil c = None"
  shows "perform pil (map Do cs) = (cs, None)"
  using perform_Do_list[OF assms, of "[]"] by simp

lemma perform_append:
  "perform pil (ss @ ts) =
     (case perform pil ss of
        (cs, Some e) \<Rightarrow> (cs, Some e)
      | (cs, None) \<Rightarrow> (cs @ fst (perform pil ts), snd (perform pil ts)))"
  by (induction pil ss rule: perform.induct) (auto split: option.splits prod.splits)

lemma perform_calls_subset: "set (fst (perform pil ss)) \<subseteq> set (step_calls ss)"
  by (induction pil ss rule: perform.induct) (auto split: option.splits prod.splits)

section \<open>The structure of a run of draw_grid\<close>

lemma line_counts_nz:
  "spacing \<noteq> 0 \<Longrightarrow>
   line_counts im spacing = Inr (int (height im) div spacing + 1, int (width im) div spacing + 1)"
  by (simp add: line_counts_def floordiv_def)

lemma line_counts_zero:
  "line_counts im 0 = Inl (ZeroDivisionError (ascii ''integer division or modulo by zero''))"
  by (simp add: line_counts_def floordiv_def)

lemma rows_drawn_nz:
  "spacing \<noteq> 0 \<Longrightarrow> rows_drawn pil im spacing color opacity thickness
     = perform pil
         (concat (map (row_steps pil (grid_font pil spacing) (int (width im)) (int (height im))
                         spacing (grid_color_of color opacity) thickness)
                      (range (int (height im) div spacing + 1))))"
  by (simp add: rows_drawn_def line_counts_nz)

lemma cols_drawn_nz:
  "spacing \<noteq> 0 \<Longrightarrow> snd (rows_drawn pil im spacing color opacity thickness) = None \<Longrightarrow>
   cols_drawn pil im spacing color opacity thickness
     = perform pil
         (concat (map (col_steps pil (grid_font pil spacing) (int (width im)) (int (height im))
                         spacing (grid_color_of color opacity) thickness)
                      (range (int (width im) div spacing + 1))))"
  by (simp add: cols_drawn_def line_counts_nz)


text \<open>What a returned image is: the converted input under the overlay of the calls made.\<close>

lemma draw_grid_Inr:
  assumes "draw_grid pil im spacing color opacity thickness = Inr res"
  shows "snd (cols_drawn pil im spacing color opacity thickness) = None"
    and "\<exists>base. convert_rgba pil im = Inr base \<and>
           res = base\<lparr>pixels := (\<lambda>p. composite_px (pixels base p)
                    (pixels (run_calls pil (grid_trace pil im spacing color opacity thickness)
                               (new_rgba (width im) (height im) (0, 0, 0, 0))) p))\<rparr>"
proof -
  obtain cs r where c: "cols_drawn pil im spacing color opacity thickness = (cs, r)"
    by (cases "cols_drawn pil im spacing color opacity thickness")
  with assms have r: "r = None"
    by (cases r) (simp_all add: draw_grid_def)
  with c show "snd (cols_drawn pil im spacing color opacity thickness) = None" by simp
  from assms c r obtain base where b: "convert_rgba pil im = Inr base"
    by (cases "convert_rgba pil im") (simp_all add: draw_grid_def)
  note s = convert_rgba_Inr[OF b]
  from assms c r b s(1,2,3) show "\<exists>base. convert_rgba pil im = Inr base \<and>
           res = base\<lparr>pixels := (\<lambda>p. composite_px (pixels base p)
                    (pixels (run_calls pil (grid_trace pil im spacing color opacity thickness)
                               (new_rgba (width im) (height im) (0, 0, 0, 0))) p))\<rparr>"
    by (auto simp add: draw_grid_def alpha_composite_def)
qed

lemma draw_grid_from_parts:
  assumes "snd (cols_drawn pil im spacing color opacity thickness) = None"
    and "load_error im = None"
  shows "\<exists>res. draw_grid pil im spacing color opacity thickness = Inr res"
proof -
  obtain cs where c: "cols_drawn pil im spacing color opacity thickness = (cs, None)"
    using assms(1) by (cases "cols_drawn pil im spacing color opacity thickness") simp
  from convert_rgba_loaded[OF assms(2)] obtain base where b: "convert_rgba pil im = Inr base"
    by blast
  note s = convert_rgba_Inr[OF b]
  from c b s(1,2,3) show ?thesis
    by (simp add: draw_grid_def alpha_composite_def)
qed

text \<open>Without exceptions, every pass makes all its calls.\<close>

lemma row_steps_calls:
  assumes "\<forall>f s. \<exists>b. getbbox pil f s = Inr b"
  shows "row_steps pil fnt w h spacing gc thickness i
         = map Do (step_calls (row_steps pil fnt w h spacing gc thickness i))"
proof -
  obtain b where "getbbox pil fnt (str_int (i + 1)) = Inr b" using assms by blast
  then show ?thesis
    by (cases b) (simp add: row_steps_def Let_def)
qed

lemma col_steps_calls:
  assumes "\<forall>f s. \<exists>b. getbbox pil f s = Inr b"
    and "i * spacing < w \<longrightarrow> 0 \<le> i \<and> i < 28965248"
  shows "col_steps pil fnt w h spacing gc thickness i
         = map Do (step_calls (col_steps pil fnt w h spacing gc thickness i))"
proof (cases "i * spacing < w")
  case True
  with assms(2) get_column_label_returns obtain lab where l: "get_column_label i = Inr lab"
    by blast
  obtain b where "getbbox pil fnt lab = Inr b" using assms(1) by blast
  with l True show ?thesis
    by (cases b) (simp add: col_steps_def Let_def)
next
  case False
  then show ?thesis by (simp add: col_steps_def)
qed

lemma concat_all_Do:
  assumes "\<forall>i \<in> set is. g i = map Do (step_calls (g i))"
  shows "concat (map g is) = map Do (step_calls (concat (map g is)))"
  using assms
proof (induction "is")
  case Nil
  then show ?case by simp
next
  case (Cons i rest)
  then have "g i = map Do (step_calls (g i))"
    and "concat (map g rest) = map Do (step_calls (concat (map g rest)))" by simp_all
  then show ?case by (simp add: step_calls_append)
qed

lemma perform_accepting:
  assumes "\<forall>c. rejects pil c = None" "ss = map Do (step_calls ss)"
  shows "perform pil ss = (step_calls ss, None)"
proof -
  have "perform pil (map Do (step_calls ss)) = (step_calls ss, None)"
    using assms(1) by (intro perform_all_Do) simp
  with assms(2) show ?thesis by simp
qed

lemma labels_in_range:
  assumes "0 < spacing" "w \<le> 28965248 * spacing"
  shows "\<forall>i \<in> set (range n). i * spacing < w \<longrightarrow> 0 \<le> i \<and> i < 28965248"
proof (intro ballI impI)
  fix i assume i: "i \<in> set (range n)" "i * spacing < w"
  then have "0 \<le> i" by (simp add: range_set)
  moreover have "i < 28965248"
  proof (rule ccontr)
    assume "\<not> i < 28965248"
    then have "28965248 * spacing \<le> i * spacing" using assms(1) by simp
    with i(2) assms(2) show False by simp
  qed
  ultimately show "0 \<le> i \<and> i < 28965248" by simp
qed

text \<open>When \<open>draw_grid\<close> returns.\<close>

lemma draw_grid_returns:
  assumes "0 < spacing" "int (width im) \<le> 28965248 * spacing" "load_error im = None"
    and "\<forall>c. rejects pil c = None" "\<forall>f s. \<exists>b. getbbox pil f s = Inr b"
  shows "\<exists>res. draw_grid pil im spacing color opacity thickness = Inr res"
proof -
  from assms(1) have nz: "spacing \<noteq> 0" by simp
  let ?rs = "concat (map (row_steps pil (grid_font pil spacing) (int (width im)) (int (height im))
                         spacing (grid_color_of color opacity) thickness)
                      (range (int (height im) div spacing + 1)))"
  let ?cs = "concat (map (col_steps pil (grid_font pil spacing) (int (width im)) (int (height im))
                         spacing (grid_color_of color opacity) thickness)
                      (range (int (width im) div spacing + 1)))"
  have "?rs = map Do (step_calls ?rs)"
    by (intro concat_all_Do ballI row_steps_calls assms(5))
  then have "perform pil ?rs = (step_calls ?rs, None)"
    by (intro perform_accepting assms(4))
  then have r: "snd (rows_drawn pil im spacing color opacity thickness) = None"
    by (simp add: rows_drawn_nz[OF nz])
  have "?cs = map Do (step_calls ?cs)"
  proof (intro concat_all_Do ballI col_steps_calls assms(5))
    fix i assume "i \<in> set (range (int (width im) div spacing + 1))"
    with labels_in_range[OF assms(1,2)]
    show "i * spacing < int (width im) \<longrightarrow> 0 \<le> i \<and> i < 28965248" by blast
  qed
  then have "perform pil ?cs = (step_calls ?cs, None)"
    by (intro perform_accepting assms(4))
  then have "snd (cols_drawn pil im spacing color opacity thickness) = None"
    by (simp add: cols_drawn_nz[OF nz r])
  then show ?thesis using assms(3) by (rule draw_grid_from_parts)
qed

lemma cell_pillow_accepts [simp]:
  "rejects cell_pillow c = None"
  "getbbox cell_pillow f s = Inr (0, 0, 6 * int (length s), 11)"
  "truetype_ok cell_pillow path = False"
  "stroke cell_pillow = cell_stroke"
  "glyphs cell_pillow = cell_glyphs"
  by (simp_all add: cell_pillow_def)


section \<open>Size and frame of the result\<close>

lemmas eval_defs = rows_drawn_def cols_drawn_def line_counts_def floordiv_def range_def
  row_steps_def col_steps_def Let_def str_int_def digits.simps get_column_label_def chr_def
  concat_res_def grid_font_def load_font_def system_fonts_def font_size_of_def grid_trace_def
  upto.simps

lemma trace_200:
  "grid_trace cell_pillow (new_rgba 200 200 (255, 255, 255, 255)) 100 (0, 0, 255) 255 2 =
   [Line (0, 0) (200, 0) (0, 0, 255, 255) 2,
    Rectangle (8, 2, 18, 17) (255, 255, 255, 200),
    Text (10, 4) (ascii ''1'') (0, 0, 0, 255) DefaultFont,
    Line (0, 100) (200, 100) (0, 0, 255, 255) 2,
    Rectangle (8, 102, 18, 117) (255, 255, 255, 200),
    Text (10, 104) (ascii ''2'') (0, 0, 0, 255) DefaultFont,
    Line (0, 0) (0, 200) (0, 0, 255, 255) 2,
    Rectangle (2, 8, 12, 23) (255, 255, 255, 200),
    Text (4, 10) (ascii ''A'') (0, 0, 0, 255) DefaultFont,
    Line (100, 0) (100, 200) (0, 0, 255, 255) 2,
    Rectangle (102, 8, 112, 23) (255, 255, 255, 200),
    Text (104, 10) (ascii ''B'') (0, 0, 0, 255) DefaultFont]"
  by (simp add: eval_defs ascii_def)

lemma returns_200:
  "\<exists>res. draw_grid cell_pillow (new_rgba 200 200 (255, 255, 255, 255)) 100 (0, 0, 255) 255 2 = Inr res"
  by (rule draw_grid_returns) simp_all

text \<open>
  Claim C7. Every image \<open>draw_grid\<close> returns has the width and the height of the input
  image. It does return one when the spacing is positive, the width is at most
  \<open>28965248 * spacing\<close> (so that every column has a label), the image loads, and Pillow
  accepts the drawing calls and measures the labels.
\<close>

theorem draw_grid_keeps_size:
  "(\<forall>res. draw_grid pil im spacing color opacity thickness = Inr res \<longrightarrow>
        width res = width im \<and> height res = height im)
   \<and> (0 < spacing \<and> int (width im) \<le> 28965248 * spacing \<and> load_error im = None
        \<and> (\<forall>c. rejects pil c = None) \<and> (\<forall>f s. \<exists>b. getbbox pil f s = Inr b) \<longrightarrow>
      (\<exists>res. draw_grid pil im spacing color opacity thickness = Inr res
             \<and> width res = width im \<and> height res = height im))"
proof -
  have a: "width res = width im \<and> height res = height im"
    if "draw_grid pil im spacing color opacity thickness = Inr res" for res
  proof -
    from draw_grid_Inr(2)[OF that] obtain base where
      b: "convert_rgba pil im = Inr base" and
      r: "res = base\<lparr>pixels := (\<lambda>p. composite_px (pixels base p)
                    (pixels (run_calls pil (grid_trace pil im spacing color opacity thickness)
                               (new_rgba (width im) (height im) (0, 0, 0, 0))) p))\<rparr>"
      by blast
    from convert_rgba_Inr(2,3)[OF b] r show ?thesis by simp
  qed
  have "\<exists>res. draw_grid pil im spacing color opacity thickness = Inr res
             \<and> width res = width im \<and> height res = height im"
    if "0 < spacing" "int (width im) \<le> 28965248 * spacing" "load_error im = None"
      "\<forall>c. rejects pil c = None" "\<forall>f s. \<exists>b. getbbox pil f s = Inr b"
    using draw_grid_returns[OF that] a by blast
  with a show ?thesis by blast
qed

theorem draw_grid_keeps_size_witness:
  "(0::int) < 100 \<and> int (width (new_rgba 200 200 (255, 255, 255, 255))) \<le> 28965248 * 100
   \<and> load_error (new_rgba 200 200 (255, 255, 255, 255)) = None
   \<and> (\<forall>c. rejects cell_pillow c = None) \<and> (\<forall>f s. \<exists>b. getbbox cell_pillow f s = Inr b)
   \<and> (\<exists>res. draw_grid cell_pillow (new_rgba 200 200 (255, 255, 255, 255)) 100 (0, 0, 255) 255 2 = Inr res
          \<and> width res = 200 \<and> height res = 200)"
  using draw_grid_keeps_size [of cell_pillow "new_rgba 200 200 (255, 255, 255, 255)" 100
      "(0, 0, 255)" 255 2]
  by simp

lemma overlay_transparent:
  assumes "\<forall>c \<in> set cs. \<not> covers pil c p"
  shows "pixels (run_calls pil cs (new_rgba w h (0, 0, 0, 0))) p = (0, 0, 0, 0)"
proof -
  have "pixels (run_calls pil cs (new_rgba w h (0, 0, 0, 0))) p
        = pixels (new_rgba w h (0, 0, 0, 0)) p"
    using assms by (intro run_calls_frame) simp
  then show ?thesis by (simp add: clip8_def)
qed

lemma composite_px_transparent: "composite_px d (sr, sg, sb, 0) = d"
  by (cases d) simp

text \<open>
  Claim C4. In every image \<open>draw_grid\<close> returns, a pixel of the image that lies outside
  the stroke of every line drawn and outside the box of every label background and
  label text drawn is the pixel of the input image: unchanged for an RGBA input, and as
  converted to RGBA for an input of another mode. \<open>draw_grid\<close> does return an image
  under the conditions given with claim C7.
\<close>

theorem draw_grid_frame:
  "(\<forall>res p. draw_grid pil im spacing color opacity thickness = Inr res \<and> inside im p
        \<and> (\<forall>c \<in> set (grid_trace pil im spacing color opacity thickness). \<not> covers pil c p) \<longrightarrow>
        pixels res p = (if mode im = ''RGBA'' then pixels im p
                        else to_rgba pil (mode im) (pixels im p)))
   \<and> (0 < spacing \<and> int (width im) \<le> 28965248 * spacing \<and> load_error im = None
        \<and> (\<forall>c. rejects pil c = None) \<and> (\<forall>f s. \<exists>b. getbbox pil f s = Inr b) \<longrightarrow>
      (\<exists>res. draw_grid pil im spacing color opacity thickness = Inr res))"
proof -
  have a: "pixels res p = (if mode im = ''RGBA'' then pixels im p
                        else to_rgba pil (mode im) (pixels im p))"
    if r: "draw_grid pil im spacing color opacity thickness = Inr res"
      and n: "\<forall>c \<in> set (grid_trace pil im spacing color opacity thickness). \<not> covers pil c p"
    for res p
  proof -
    from draw_grid_Inr(2)[OF r] obtain base where
      b: "convert_rgba pil im = Inr base" and
      e: "res = base\<lparr>pixels := (\<lambda>p. composite_px (pixels base p)
                    (pixels (run_calls pil (grid_trace pil im spacing color opacity thickness)
                               (new_rgba (width im) (height im) (0, 0, 0, 0))) p))\<rparr>"
      by blast
    from e have "pixels res p = composite_px (pixels base p)
                    (pixels (run_calls pil (grid_trace pil im spacing color opacity thickness)
                               (new_rgba (width im) (height im) (0, 0, 0, 0))) p)"
      by simp
    also have "\<dots> = pixels base p"
      by (simp add: overlay_transparent[OF n] composite_px_transparent)
    also have "\<dots> = (if mode im = ''RGBA'' then pixels im p
                        else to_rgba pil (mode im) (pixels im p))"
      using b by (auto simp add: convert_rgba_def split: option.splits if_splits)
    finally show ?thesis .
  qed
  have "\<exists>res. draw_grid pil im spacing color opacity thickness = Inr res"
    if "0 < spacing" "int (width im) \<le> 28965248 * spacing" "load_error im = None"
      "\<forall>c. rejects pil c = None" "\<forall>f s. \<exists>b. getbbox pil f s = Inr b"
    using draw_grid_returns[OF that] by blast
  with a show ?thesis by blast
qed

theorem draw_grid_frame_witness:
  "(\<exists>res. draw_grid cell_pillow (new_rgba 200 200 (255, 255, 255, 255)) 100 (0, 0, 255) 255 2 = Inr res
        \<and> inside (new_rgba 200 200 (255, 255, 255, 255)) (50, 50)
        \<and> (\<forall>c \<in> set (grid_trace cell_pillow (new_rgba 200 200 (255, 255, 255, 255)) 100 (0, 0, 255) 255 2).
              \<not> covers cell_pillow c (50, 50))
        \<and> pixels res (50, 50) = (255, 255, 255, 255))"
proof -
  let ?im = "new_rgba 200 200 (255, 255, 255, 255)"
  note t = draw_grid_frame [of cell_pillow ?im 100 "(0, 0, 255)" 255 2]
  from t have "\<exists>res. draw_grid cell_pillow ?im 100 (0, 0, 255) 255 2 = Inr res" by simp
  then obtain res where r: "draw_grid cell_pillow ?im 100 (0, 0, 255) 255 2 = Inr res" by blast
  have i: "inside ?im (50, 50)" by simp
  have n: "\<forall>c \<in> set (grid_trace cell_pillow ?im 100 (0, 0, 255) 255 2). \<not> covers cell_pillow c (50, 50)"
    by (simp add: trace_200)
  from t r i n have "pixels res (50, 50) = pixels ?im (50, 50)" by simp
  then have "pixels res (50, 50) = (255, 255, 255, 255)" by (simp add: clip8_def)
  with r i n show ?thesis by blast
qed


section \<open>The labels\<close>

lemma grid_trace_perform:
  assumes "spacing \<noteq> 0"
  shows "grid_trace pil im spacing color opacity thickness
     = fst (perform pil
         (concat (map (row_steps pil (grid_font pil spacing) (int (width im)) (int (height im))
                         spacing (grid_color_of color opacity) thickness)
                      (range (int (height im) div spacing + 1)))
          @ concat (map (col_steps pil (grid_font pil spacing) (int (width im)) (int (height im))
                         spacing (grid_color_of color opacity) thickness)
                      (range (int (width im) div spacing + 1)))))"
proof -
  let ?rs = "concat (map (row_steps pil (grid_font pil spacing) (int (width im)) (int (height im))
                         spacing (grid_color_of color opacity) thickness)
                      (range (int (height im) div spacing + 1)))"
  obtain cs r where p: "perform pil ?rs = (cs, r)" by (cases "perform pil ?rs")
  show ?thesis
  proof (cases r)
    case None
    with p assms show ?thesis
      by (simp add: grid_trace_def rows_drawn_nz cols_drawn_nz perform_append)
  next
    case (Some e)
    with p assms show ?thesis
      by (simp add: grid_trace_def rows_drawn_nz cols_drawn_def line_counts_nz perform_append)
  qed
qed

lemma grid_trace_zero: "grid_trace pil im 0 color opacity thickness = []"
  by (simp add: grid_trace_def rows_drawn_def cols_drawn_def line_counts_zero)

lemma label_style_blocks:
  assumes "\<forall>b \<in> set bs. b = []
      \<or> (\<exists>l e. b = [Do l, Raise e] \<and> is_line l)
      \<or> (\<exists>l bx xy s f bb. b = [Do l, Do (Rectangle bx (255, 255, 255, 200)),
                                  Do (Text xy s (0, 0, 0, 255) f)]
            \<and> is_line l \<and> textbbox pil xy s f = Inr bb \<and> bx = bg_box bb)"
  shows "label_style pil (fst (perform pil (concat bs)))"
  using assms
proof (induction bs)
  case Nil
  then show ?case by simp
next
  case (Cons b bs)
  then have ih: "label_style pil (fst (perform pil (concat bs)))" by simp
  from Cons.prems consider (empty) "b = []"
    | (raised) l e where "b = [Do l, Raise e]" "is_line l"
    | (full) l bx xy s f bb where
        "b = [Do l, Do (Rectangle bx (255, 255, 255, 200)), Do (Text xy s (0, 0, 0, 255) f)]"
        "is_line l" "textbbox pil xy s f = Inr bb" "bx = bg_box bb"
    by auto
  then show ?case
  proof cases
    case empty
    with ih show ?thesis by simp
  next
    case raised
    from raised(2) obtain p q c w where "l = Line p q c w" by (cases l) simp_all
    with raised(1) show ?thesis by (simp split: option.splits)
  next
    case full
    from full(2) obtain p q c w where "l = Line p q c w" by (cases l) simp_all
    with full(1,3,4) ih show ?thesis
      by (cases "perform pil (concat bs)") (simp split: option.splits)
  qed
qed

lemma row_steps_block:
  "row_steps pil fnt w h spacing gc thickness i = []
   \<or> (\<exists>l e. row_steps pil fnt w h spacing gc thickness i = [Do l, Raise e] \<and> is_line l)
   \<or> (\<exists>l bx xy s f bb. row_steps pil fnt w h spacing gc thickness i
            = [Do l, Do (Rectangle bx (255, 255, 255, 200)), Do (Text xy s (0, 0, 0, 255) f)]
         \<and> is_line l \<and> textbbox pil xy s f = Inr bb \<and> bx = bg_box bb)"
  by (cases "textbbox pil (10, i * spacing + thickness + 2) (str_int (i + 1)) fnt")
     (simp_all add: row_steps_def Let_def del: textbbox.simps bg_box.simps split_paired_Ex)

lemma col_steps_block:
  "col_steps pil fnt w h spacing gc thickness i = []
   \<or> (\<exists>l e. col_steps pil fnt w h spacing gc thickness i = [Do l, Raise e] \<and> is_line l)
   \<or> (\<exists>l bx xy s f bb. col_steps pil fnt w h spacing gc thickness i
            = [Do l, Do (Rectangle bx (255, 255, 255, 200)), Do (Text xy s (0, 0, 0, 255) f)]
         \<and> is_line l \<and> textbbox pil xy s f = Inr bb \<and> bx = bg_box bb)"
proof (cases "get_column_label i")
  case (Inl e)
  then show ?thesis by (simp add: col_steps_def Let_def)
next
  case (Inr lab)
  then show ?thesis
    by (cases "textbbox pil (i * spacing + thickness + 2, 10) lab fnt")
       (simp_all add: col_steps_def Let_def del: textbbox.simps bg_box.simps split_paired_Ex)
qed

text \<open>
  Claim C3, as amended. In every run of \<open>draw_grid\<close>, each label drawn is drawn as a
  background and then a text: the background rectangle is the bounding box of the text
  padded by 2 pixels on each side and is filled \<open>(255, 255, 255, 200)\<close>, white with
  alpha 200, and the text is drawn after it, over it, in \<open>(0, 0, 0, 255)\<close>, opaque black.
\<close>

theorem label_background_and_text:
  "label_style pil (grid_trace pil im spacing color opacity thickness)"
proof (cases "spacing = 0")
  case True
  then show ?thesis by (simp add: grid_trace_zero)
next
  case False
  let ?rows = "map (row_steps pil (grid_font pil spacing) (int (width im)) (int (height im))
                         spacing (grid_color_of color opacity) thickness)
                      (range (int (height im) div spacing + 1))"
  let ?cols = "map (col_steps pil (grid_font pil spacing) (int (width im)) (int (height im))
                         spacing (grid_color_of color opacity) thickness)
                      (range (int (width im) div spacing + 1))"
  have "label_style pil (fst (perform pil (concat (?rows @ ?cols))))"
  proof (rule label_style_blocks, rule ballI)
    fix b assume "b \<in> set (?rows @ ?cols)"
    then consider i where "b = row_steps pil (grid_font pil spacing) (int (width im)) (int (height im))
                         spacing (grid_color_of color opacity) thickness i"
      | i where "b = col_steps pil (grid_font pil spacing) (int (width im)) (int (height im))
                         spacing (grid_color_of color opacity) thickness i"
      by auto
    then show "b = []
      \<or> (\<exists>l e. b = [Do l, Raise e] \<and> is_line l)
      \<or> (\<exists>l bx xy s f bb. b = [Do l, Do (Rectangle bx (255, 255, 255, 200)),
                                  Do (Text xy s (0, 0, 0, 255) f)]
            \<and> is_line l \<and> textbbox pil xy s f = Inr bb \<and> bx = bg_box bb)"
    proof cases
      case 1
      then show ?thesis using row_steps_block by simp
    next
      case 2
      then show ?thesis using col_steps_block by simp
    qed
  qed
  then show ?thesis using False by (simp add: grid_trace_perform)
qed

lemma pixel_of_draw_grid:
  assumes "returned (draw_grid pil im spacing color opacity thickness)" "mode im = ''RGBA''"
  shows "pixel_of (draw_grid pil im spacing color opacity thickness) p
         = Some (composite_px (pixels im p)
                   (pixels (run_calls pil (grid_trace pil im spacing color opacity thickness)
                              (new_rgba (width im) (height im) (0, 0, 0, 0))) p))"
proof -
  from assms(1) obtain res where r: "draw_grid pil im spacing color opacity thickness = Inr res"
    by (cases "draw_grid pil im spacing color opacity thickness") (simp_all add: returned_def)
  from draw_grid_Inr(2)[OF r] obtain base where
      b: "convert_rgba pil im = Inr base" and
      e: "res = base\<lparr>pixels := (\<lambda>p. composite_px (pixels base p)
                    (pixels (run_calls pil (grid_trace pil im spacing color opacity thickness)
                               (new_rgba (width im) (height im) (0, 0, 0, 0))) p))\<rparr>"
    by blast
  from convert_rgba_Inr(5)[OF b assms(2)] e r show ?thesis
    by (simp add: pixel_of_def)
qed

lemma returned_draw_grid:
  assumes "0 < spacing" "int (width im) \<le> 28965248 * spacing" "load_error im = None"
    and "\<forall>c. rejects pil c = None" "\<forall>f s. \<exists>b. getbbox pil f s = Inr b"
  shows "returned (draw_grid pil im spacing color opacity thickness)"
  using draw_grid_returns[OF assms, of color opacity thickness] by (auto simp add: returned_def)

lemma pixels_exec_call:
  "pixels (exec_call pil c im) p
   = (if inside im p \<and> covers pil c p then paint pil c p (pixels im p) else pixels im p)"
  by (simp add: exec_call_def)

lemma trace_200_clear:
  "grid_trace cell_pillow (new_rgba 200 200 (0, 0, 0, 0)) 100 (0, 0, 255) 255 2 =
   [Line (0, 0) (200, 0) (0, 0, 255, 255) 2,
    Rectangle (8, 2, 18, 17) (255, 255, 255, 200),
    Text (10, 4) (ascii ''1'') (0, 0, 0, 255) DefaultFont,
    Line (0, 100) (200, 100) (0, 0, 255, 255) 2,
    Rectangle (8, 102, 18, 117) (255, 255, 255, 200),
    Text (10, 104) (ascii ''2'') (0, 0, 0, 255) DefaultFont,
    Line (0, 0) (0, 200) (0, 0, 255, 255) 2,
    Rectangle (2, 8, 12, 23) (255, 255, 255, 200),
    Text (4, 10) (ascii ''A'') (0, 0, 0, 255) DefaultFont,
    Line (100, 0) (100, 200) (0, 0, 255, 255) 2,
    Rectangle (102, 8, 112, 23) (255, 255, 255, 200),
    Text (104, 10) (ascii ''B'') (0, 0, 0, 255) DefaultFont]"
  by (simp add: eval_defs ascii_def)

text \<open>
  Claim C3 as stated fails: on a fully transparent image of 200 by 200 pixels, with
  spacing 100 and thickness 2, the second drawing call is the background of the row
  label \<open>1\<close>, filled with alpha 200, and the pixel \<open>(9, 3)\<close> of that background has alpha
  200 in the result, not 255.
\<close>

theorem label_background_alpha_counterexample:
  "grid_trace cell_pillow (new_rgba 200 200 (0, 0, 0, 0)) 100 (0, 0, 255) 255 2 ! 1
     = Rectangle (8, 2, 18, 17) (255, 255, 255, 200)
   \<and> pixel_of (draw_grid cell_pillow (new_rgba 200 200 (0, 0, 0, 0)) 100 (0, 0, 255) 255 2) (9, 3)
     = Some (255, 255, 255, 200)"
proof -
  have r: "returned (draw_grid cell_pillow (new_rgba 200 200 (0, 0, 0, 0)) 100 (0, 0, 255) 255 2)"
    by (rule returned_draw_grid) simp_all
  have "pixels (run_calls cell_pillow
            (grid_trace cell_pillow (new_rgba 200 200 (0, 0, 0, 0)) 100 (0, 0, 255) 255 2)
            (new_rgba 200 200 (0, 0, 0, 0))) (9, 3) = (255, 255, 255, 200)"
    by (simp add: trace_200_clear pixels_exec_call clip8_def ascii_def)
  then have "pixel_of (draw_grid cell_pillow (new_rgba 200 200 (0, 0, 0, 0)) 100 (0, 0, 255) 255 2) (9, 3)
     = Some (255, 255, 255, 200)"
    by (simp add: pixel_of_draw_grid[OF r] clip8_def shift_div255_def)
  then show ?thesis by (simp add: trace_200_clear)
qed


section \<open>The offsets of the grid lines\<close>
















lemma returned_Inr: "returned r \<longleftrightarrow> (\<exists>x. r = Inr x)"
  by (cases r) (simp_all add: returned_def)






section \<open>The pixels of the grid lines\<close>

lemma channel_opaque_all:
  "\<forall>r \<in> set [0..255]. shift_div255 (r * 32640 + 16384) div 128 = r"
  by code_simp

lemma channel_opaque:
  assumes "0 \<le> r" "r \<le> 255"
  shows "shift_div255 (r * 32640 + 16384) div 128 = r"
proof -
  from assms have "r \<in> set [0..255]" by simp
  with channel_opaque_all show ?thesis by blast
qed

lemma composite_px_opaque:
  assumes "eight_bit (r, g, b)"
  shows "composite_px d (r, g, b, 255) = (r, g, b, 255)"
proof -
  obtain dr dg db da where d: "d = (dr, dg, db, da)" by (cases d)
  have a: "shift_div255 (65025 + 128) = 255" by (simp add: shift_div255_def)
  from assms have "shift_div255 (r * 32640 + 16384) div 128 = r"
    "shift_div255 (g * 32640 + 16384) div 128 = g"
    "shift_div255 (b * 32640 + 16384) div 128 = b"
    by (simp_all add: channel_opaque)
  with a show ?thesis by (simp add: d)
qed

lemma row_steps_lines:
  assumes "d \<in> set (step_calls (row_steps pil fnt w h spacing gc thickness i))" "is_line d"
  shows "flat_fill d = Some gc"
  using assms
  by (cases "textbbox pil (10, i * spacing + thickness + 2) (str_int (i + 1)) fnt")
     (auto simp add: row_steps_def Let_def simp del: textbbox.simps split: if_splits)

lemma col_steps_lines:
  assumes "d \<in> set (step_calls (col_steps pil fnt w h spacing gc thickness i))" "is_line d"
  shows "flat_fill d = Some gc"
proof (cases "get_column_label i")
  case (Inl e)
  with assms show ?thesis by (auto simp add: col_steps_def Let_def split: if_splits)
next
  case (Inr lab)
  with assms show ?thesis
    by (cases "textbbox pil (i * spacing + thickness + 2, 10) lab fnt")
       (auto simp add: col_steps_def Let_def simp del: textbbox.simps split: if_splits)
qed

lemma grid_trace_lines:
  assumes "d \<in> set (grid_trace pil im spacing color opacity thickness)" "is_line d"
  shows "flat_fill d = Some (grid_color_of color opacity)"
proof (cases "spacing = 0")
  case True
  with assms show ?thesis by (simp add: grid_trace_zero)
next
  case False
  let ?rows = "map (row_steps pil (grid_font pil spacing) (int (width im)) (int (height im))
                         spacing (grid_color_of color opacity) thickness)
                      (range (int (height im) div spacing + 1))"
  let ?cols = "map (col_steps pil (grid_font pil spacing) (int (width im)) (int (height im))
                         spacing (grid_color_of color opacity) thickness)
                      (range (int (width im) div spacing + 1))"
  from assms(1) False have "d \<in> set (fst (perform pil (concat ?rows @ concat ?cols)))"
    by (simp add: grid_trace_perform)
  with perform_calls_subset have "d \<in> set (step_calls (concat ?rows @ concat ?cols))"
    by blast
  then consider i where "d \<in> set (step_calls (row_steps pil (grid_font pil spacing) (int (width im))
                 (int (height im)) spacing (grid_color_of color opacity) thickness i))"
    | i where "d \<in> set (step_calls (col_steps pil (grid_font pil spacing) (int (width im))
                 (int (height im)) spacing (grid_color_of color opacity) thickness i))"
    by (auto simp add: step_calls_append step_calls_concat)
  then show ?thesis
  proof cases
    case 1
    then show ?thesis using assms(2) by (rule row_steps_lines)
  next
    case 2
    then show ?thesis using assms(2) by (rule col_steps_lines)
  qed
qed

text \<open>The overlay at a pixel of a line that no later label covers holds the grid colour.\<close>

lemma overlay_on_line:
  assumes tr: "grid_trace pil im spacing color opacity thickness = pre @ Line a b c w # post"
    and ins: "inside ov p" and cov: "covers pil (Line a b c w) p"
    and later: "\<forall>d \<in> set post. covers pil d p \<longrightarrow> is_line d"
  shows "pixels (run_calls pil (grid_trace pil im spacing color opacity thickness) ov) p
         = ink (grid_color_of color opacity)"
proof -
  let ?gc = "grid_color_of color opacity"
  have "Line a b c w \<in> set (grid_trace pil im spacing color opacity thickness)"
    unfolding tr by simp
  from grid_trace_lines[OF this] have c: "c = ?gc" by simp
  have "pixels (exec_call pil (Line a b c w) (run_calls pil pre ov)) p = ink ?gc"
    using ins cov c by (simp add: exec_call_def)
  moreover have "\<forall>d \<in> set post. covers pil d p \<longrightarrow> flat_fill d = Some ?gc"
  proof (intro ballI impI)
    fix d assume d: "d \<in> set post" "covers pil d p"
    with later have "is_line d" by blast
    moreover from d(1) have "d \<in> set (grid_trace pil im spacing color opacity thickness)"
      unfolding tr by simp
    ultimately show "flat_fill d = Some ?gc" by (intro grid_trace_lines)
  qed
  ultimately have "pixels (run_calls pil post (exec_call pil (Line a b c w) (run_calls pil pre ov))) p
      = ink ?gc"
    by (rule run_calls_same_ink)
  then show ?thesis unfolding tr by (simp add: run_calls_append)
qed

text \<open>
  Claim C6, as amended. In every image \<open>draw_grid\<close> returns, take a pixel in the stroke
  of a grid line that no label background or label text drawn after that line covers.
  With opacity 0 the pixel is that of the input image (as converted to RGBA when the
  input has another mode); with opacity 255 and an 8-bit colour the pixel is fully
  opaque and has exactly the configured colour. \<open>draw_grid\<close> does return an image under
  the conditions given with claim C7.
\<close>

theorem grid_line_pixels:
  "(\<forall>res p pre a b c w post.
        draw_grid pil im spacing color opacity thickness = Inr res \<and> inside im p
        \<and> grid_trace pil im spacing color opacity thickness = pre @ Line a b c w # post
        \<and> covers pil (Line a b c w) p
        \<and> (\<forall>d \<in> set post. covers pil d p \<longrightarrow> is_line d) \<longrightarrow>
        (opacity = 0 \<longrightarrow>
           pixels res p = (if mode im = ''RGBA'' then pixels im p
                           else to_rgba pil (mode im) (pixels im p)))
      \<and> (opacity = 255 \<and> eight_bit color \<longrightarrow> pixels res p = grid_color_of color 255))
   \<and> (0 < spacing \<and> int (width im) \<le> 28965248 * spacing \<and> load_error im = None
        \<and> (\<forall>c. rejects pil c = None) \<and> (\<forall>f s. \<exists>b. getbbox pil f s = Inr b) \<longrightarrow>
      (\<exists>res. draw_grid pil im spacing color opacity thickness = Inr res))"
proof -
  have a: "(opacity = 0 \<longrightarrow>
           pixels res p = (if mode im = ''RGBA'' then pixels im p
                           else to_rgba pil (mode im) (pixels im p)))
      \<and> (opacity = 255 \<and> eight_bit color \<longrightarrow> pixels res p = grid_color_of color 255)"
    if r: "draw_grid pil im spacing color opacity thickness = Inr res" and ins: "inside im p"
      and tr: "grid_trace pil im spacing color opacity thickness = pre @ Line a b c w # post"
      and cov: "covers pil (Line a b c w) p"
      and later: "\<forall>d \<in> set post. covers pil d p \<longrightarrow> is_line d"
    for res p pre a b c w post
  proof -
    obtain cr cg cb where col: "color = (cr, cg, cb)" by (cases color)
    from draw_grid_Inr(2)[OF r] obtain base where
      b: "convert_rgba pil im = Inr base" and
      e: "res = base\<lparr>pixels := (\<lambda>p. composite_px (pixels base p)
                    (pixels (run_calls pil (grid_trace pil im spacing color opacity thickness)
                               (new_rgba (width im) (height im) (0, 0, 0, 0))) p))\<rparr>"
      by blast
    from ins have "inside (new_rgba (width im) (height im) (0, 0, 0, 0)) p"
      by (simp add: inside_def)
    from overlay_on_line[OF tr this cov later]
    have ov: "pixels (run_calls pil (grid_trace pil im spacing color opacity thickness)
                 (new_rgba (width im) (height im) (0, 0, 0, 0))) p = ink (grid_color_of color opacity)" .
    have px: "pixels res p = composite_px (pixels base p) (ink (grid_color_of color opacity))"
      using e ov by simp
    have bs: "pixels base p = (if mode im = ''RGBA'' then pixels im p
                        else to_rgba pil (mode im) (pixels im p))"
      using b by (auto simp add: convert_rgba_def split: option.splits if_splits)
    have z: "pixels res p = (if mode im = ''RGBA'' then pixels im p
                           else to_rgba pil (mode im) (pixels im p))" if "opacity = 0"
      using px bs that by (simp add: col clip8_def composite_px_transparent)
    have o: "pixels res p = grid_color_of color 255" if "opacity = 255" "eight_bit color"
    proof -
      from that(2) have "ink (grid_color_of color 255) = grid_color_of color 255"
        by (simp add: col clip8_def)
      with px that show ?thesis by (simp add: col composite_px_opaque)
    qed
    from z o show ?thesis by blast
  qed
  have "\<exists>res. draw_grid pil im spacing color opacity thickness = Inr res"
    if "0 < spacing" "int (width im) \<le> 28965248 * spacing" "load_error im = None"
      "\<forall>c. rejects pil c = None" "\<forall>f s. \<exists>b. getbbox pil f s = Inr b"
    using draw_grid_returns[OF that] by blast
  with a show ?thesis by blast
qed

lemma trace_200_any:
  "grid_trace cell_pillow (new_rgba 200 200 (255, 255, 255, 255)) 100 (0, 0, 255) op 2 =
   [Line (0, 0) (200, 0) (0, 0, 255, op) 2,
    Rectangle (8, 2, 18, 17) (255, 255, 255, 200),
    Text (10, 4) (ascii ''1'') (0, 0, 0, 255) DefaultFont]
   @ Line (0, 100) (200, 100) (0, 0, 255, op) 2 #
   [Rectangle (8, 102, 18, 117) (255, 255, 255, 200),
    Text (10, 104) (ascii ''2'') (0, 0, 0, 255) DefaultFont,
    Line (0, 0) (0, 200) (0, 0, 255, op) 2,
    Rectangle (2, 8, 12, 23) (255, 255, 255, 200),
    Text (4, 10) (ascii ''A'') (0, 0, 0, 255) DefaultFont,
    Line (100, 0) (100, 200) (0, 0, 255, op) 2,
    Rectangle (102, 8, 112, 23) (255, 255, 255, 200),
    Text (104, 10) (ascii ''B'') (0, 0, 0, 255) DefaultFont]"
  by (simp add: eval_defs ascii_def)

theorem grid_line_pixels_witness:
  "(\<exists>res. draw_grid cell_pillow (new_rgba 200 200 (255, 255, 255, 255)) 100 (0, 0, 255) 255 2 = Inr res
        \<and> inside (new_rgba 200 200 (255, 255, 255, 255)) (50, 100)
        \<and> covers cell_pillow (Line (0, 100) (200, 100) (0, 0, 255, 255) 2) (50, 100)
        \<and> (255::int) = 255 \<and> eight_bit (0, 0, 255)
        \<and> pixels res (50, 100) = (0, 0, 255, 255))
   \<and> (\<exists>res. draw_grid cell_pillow (new_rgba 200 200 (255, 255, 255, 255)) 100 (0, 0, 255) 0 2 = Inr res
        \<and> inside (new_rgba 200 200 (255, 255, 255, 255)) (50, 100)
        \<and> covers cell_pillow (Line (0, 100) (200, 100) (0, 0, 255, 0) 2) (50, 100)
        \<and> (0::int) = 0
        \<and> pixels res (50, 100) = (255, 255, 255, 255))"
proof -
  let ?im = "new_rgba 200 200 (255, 255, 255, 255)"
  let ?post = "\<lambda>op. [Rectangle (8, 102, 18, 117) (255, 255, 255, 200),
    Text (10, 104) (ascii ''2'') (0, 0, 0, 255) DefaultFont,
    Line (0, 0) (0, 200) (0, 0, 255, op) 2,
    Rectangle (2, 8, 12, 23) (255, 255, 255, 200),
    Text (4, 10) (ascii ''A'') (0, 0, 0, 255) DefaultFont,
    Line (100, 0) (100, 200) (0, 0, 255, op) 2,
    Rectangle (102, 8, 112, 23) (255, 255, 255, 200),
    Text (104, 10) (ascii ''B'') (0, 0, 0, 255) DefaultFont]"
  have i: "inside ?im (50, 100)" by simp
  have cov: "covers cell_pillow (Line (0, 100) (200, 100) (0, 0, 255, op) 2) (50, 100)" for op
    by simp
  have later: "\<forall>d \<in> set (?post op). covers cell_pillow d (50, 100) \<longrightarrow> is_line d" for op
    by (simp add: ascii_def)
  note t1 = grid_line_pixels [of cell_pillow ?im 100 "(0, 0, 255)" 255 2]
  from t1 obtain r1 where r1: "draw_grid cell_pillow ?im 100 (0, 0, 255) 255 2 = Inr r1"
    by auto
  from t1 r1 i trace_200_any[of 255] cov[of 255] later[of 255]
  have "255 = (255::int) \<and> eight_bit (0, 0, 255) \<longrightarrow> pixels r1 (50, 100) = grid_color_of (0, 0, 255) 255"
    by blast
  then have p1: "pixels r1 (50, 100) = (0, 0, 255, 255)" by simp
  note t0 = grid_line_pixels [of cell_pillow ?im 100 "(0, 0, 255)" 0 2]
  from t0 obtain r0 where r0: "draw_grid cell_pillow ?im 100 (0, 0, 255) 0 2 = Inr r0"
    by auto
  from t0 r0 i trace_200_any[of 0] cov[of 0] later[of 0]
  have "(0::int) = 0 \<longrightarrow> pixels r0 (50, 100) = (if mode ?im = ''RGBA'' then pixels ?im (50, 100)
                           else to_rgba cell_pillow (mode ?im) (pixels ?im (50, 100)))"
    by blast
  then have p0: "pixels r0 (50, 100) = (255, 255, 255, 255)" by (simp add: clip8_def)
  from r1 p1 r0 p0 i cov show ?thesis by simp
qed

lemma trace_20:
  "grid_trace cell_pillow (new_rgba 20 20 (0, 0, 0, 255)) 15 (0, 0, 255) op 1 =
   [Line (0, 0) (20, 0) (0, 0, 255, op) 1,
    Rectangle (8, 1, 18, 16) (255, 255, 255, 200),
    Text (10, 3) (ascii ''1'') (0, 0, 0, 255) DefaultFont,
    Line (0, 15) (20, 15) (0, 0, 255, op) 1,
    Rectangle (8, 16, 18, 31) (255, 255, 255, 200),
    Text (10, 18) (ascii ''2'') (0, 0, 0, 255) DefaultFont,
    Line (0, 0) (0, 20) (0, 0, 255, op) 1,
    Rectangle (1, 8, 11, 23) (255, 255, 255, 200),
    Text (3, 10) (ascii ''A'') (0, 0, 0, 255) DefaultFont,
    Line (15, 0) (15, 20) (0, 0, 255, op) 1,
    Rectangle (16, 8, 26, 23) (255, 255, 255, 200),
    Text (18, 10) (ascii ''B'') (0, 0, 0, 255) DefaultFont]"
  by (simp add: eval_defs ascii_def)

lemma pixel_20:
  "pixel_of (draw_grid cell_pillow (new_rgba 20 20 (0, 0, 0, 255)) 15 (0, 0, 255) op 1) (2, 15)
     = Some (200, 200, 200, 255)"
proof -
  have r: "returned (draw_grid cell_pillow (new_rgba 20 20 (0, 0, 0, 255)) 15 (0, 0, 255) op 1)"
    by (rule returned_draw_grid) simp_all
  have "pixels (run_calls cell_pillow
            (grid_trace cell_pillow (new_rgba 20 20 (0, 0, 0, 255)) 15 (0, 0, 255) op 1)
            (new_rgba 20 20 (0, 0, 0, 0))) (2, 15) = (255, 255, 255, 200)"
    by (simp add: trace_20 pixels_exec_call clip8_def ascii_def)
  then show ?thesis
    by (simp add: pixel_of_draw_grid[OF r] clip8_def shift_div255_def)
qed

text \<open>
  Claim C6 as stated fails: on an opaque black image of 20 by 20 pixels, with spacing 15,
  thickness 1 and the colour blue, the pixel \<open>(2, 15)\<close> lies on the horizontal grid line
  at offset 15, and the background of the column label \<open>A\<close>, drawn later, covers it.
  With opacity 255 the pixel of the result is the grey \<open>(200, 200, 200, 255)\<close>, not the
  configured blue; with opacity 0 it is the same grey, not the black of the input.
\<close>

theorem grid_line_pixels_counterexample:
  "inside (new_rgba 20 20 (0, 0, 0, 255)) (2, 15)
   \<and> Line (0, 15) (20, 15) (0, 0, 255, 255) 1
        \<in> set (grid_trace cell_pillow (new_rgba 20 20 (0, 0, 0, 255)) 15 (0, 0, 255) 255 1)
   \<and> covers cell_pillow (Line (0, 15) (20, 15) (0, 0, 255, 255) 1) (2, 15)
   \<and> pixel_of (draw_grid cell_pillow (new_rgba 20 20 (0, 0, 0, 255)) 15 (0, 0, 255) 255 1) (2, 15)
        = Some (200, 200, 200, 255)
   \<and> (200, 200, 200, 255) \<noteq> grid_color_of (0, 0, 255) 255
   \<and> Line (0, 15) (20, 15) (0, 0, 255, 0) 1
        \<in> set (grid_trace cell_pillow (new_rgba 20 20 (0, 0, 0, 255)) 15 (0, 0, 255) 0 1)
   \<and> covers cell_pillow (Line (0, 15) (20, 15) (0, 0, 255, 0) 1) (2, 15)
   \<and> pixel_of (draw_grid cell_pillow (new_rgba 20 20 (0, 0, 0, 255)) 15 (0, 0, 255) 0 1) (2, 15)
        = Some (200, 200, 200, 255)
   \<and> pixels (new_rgba 20 20 (0, 0, 0, 255)) (2, 15) = (0, 0, 0, 255)"
  by (simp add: pixel_20 trace_20 clip8_def)


section \<open>The runs of main\<close>

lemma main_try_missing:
  "\<not> path_exists ev (args_input_image a) \<Longrightarrow>
   main_try ev a = ([], Inl (FileNotFoundError (ascii ''Input file not found: '' @ args_input_image a)))"
  by (simp add: main_try_def)

lemma main_try_unopened:
  "path_exists ev (args_input_image a) \<Longrightarrow> image_open ev (args_input_image a) = Inl e \<Longrightarrow>
   main_try ev a = ([(INFO, Opening_image (args_input_image a))],
                    Inl (ValueError (ascii ''Failed to open image: '' @ str_of e)))"
  by (simp add: main_try_def)

text \<open>The result of the body once the image is open.\<close>

lemma main_try_opened:
  assumes "path_exists ev (args_input_image a)" "image_open ev (args_input_image a) = Inr im"
  shows "snd (main_try ev a) =
     (case ensure_rgba (env_pillow ev) im of
        Inl e \<Rightarrow> Inl e
      | Inr rgba \<Rightarrow>
          (case draw_grid (env_pillow ev) rgba (args_spacing a) (args_color a)
                  (checked_opacity (args_opacity a)) (args_thickness a) of
             Inl e \<Rightarrow> Inl e
           | Inr img \<Rightarrow>
               (case image_save ev img (output_path ev a) of
                  Some e \<Rightarrow> Inl e
                | None \<Rightarrow> Inr (output_path ev a, img))))"
  using assms by (simp add: main_try_def Let_def split: sum.splits option.splits)

lemma main_try_result:
  "snd (main_try ev a) =
     (if \<not> path_exists ev (args_input_image a)
        then Inl (FileNotFoundError (ascii ''Input file not found: '' @ args_input_image a))
      else (case image_open ev (args_input_image a) of
              Inl e \<Rightarrow> Inl (ValueError (ascii ''Failed to open image: '' @ str_of e))
            | Inr im \<Rightarrow>
               (case ensure_rgba (env_pillow ev) im of
                  Inl e \<Rightarrow> Inl e
                | Inr rgba \<Rightarrow>
                   (case draw_grid (env_pillow ev) rgba (args_spacing a) (args_color a)
                           (checked_opacity (args_opacity a)) (args_thickness a) of
                      Inl e \<Rightarrow> Inl e
                    | Inr img \<Rightarrow>
                       (case image_save ev img (output_path ev a) of
                          Some e \<Rightarrow> Inl e
                        | None \<Rightarrow> Inr (output_path ev a, img))))))"
proof (cases "path_exists ev (args_input_image a)")
  case False
  then show ?thesis by (simp add: main_try_missing)
next
  case True
  show ?thesis
  proof (cases "image_open ev (args_input_image a)")
    case (Inl e)
    with True show ?thesis by (simp add: main_try_unopened)
  next
    case (Inr im)
    with True show ?thesis by (simp add: main_try_opened)
  qed
qed

lemma main_parsed_fields:
  "exit_code (main_parsed ev a) = (case snd (main_try ev a) of Inl e \<Rightarrow> 1 | Inr r \<Rightarrow> 0)"
  "stdout (main_parsed ev a) =
     (case snd (main_try ev a) of
        Inl e \<Rightarrow> []
      | Inr r \<Rightarrow> [ascii ''Successfully created grid overlay: '' @ fst r])"
  "stderr (main_parsed ev a) = (case snd (main_try ev a) of Inl e \<Rightarrow> [error_print e] | Inr r \<Rightarrow> [])"
  "saved (main_parsed ev a) = (case snd (main_try ev a) of Inl e \<Rightarrow> None | Inr r \<Rightarrow> Some r)"
  "logged (main_parsed ev a) =
     emit (args_debug a) DEBUG Debug_mode_enabled @ fst (main_try ev a)
     @ (case snd (main_try ev a) of Inl e \<Rightarrow> [(ERROR, Plain (error_log e))] | Inr r \<Rightarrow> [])"
  by (cases "main_try ev a"; simp add: main_parsed_def split: sum.splits prod.splits)+

lemma output_path_opacity [simp]:
  "output_path ev (a\<lparr>args_opacity := v\<rparr>) = output_path ev a"
  by (simp add: output_path_def split: option.splits)

lemma checked_opacity_invalid:
  "\<not> (0 \<le> v \<and> v \<le> 255) \<Longrightarrow> checked_opacity v = checked_opacity 128"
  by (simp add: checked_opacity_def)

lemma main_try_reset:
  assumes "\<not> (0 \<le> args_opacity a \<and> args_opacity a \<le> 255)"
  shows "snd (main_try ev a) = snd (main_try ev (a\<lparr>args_opacity := 128\<rparr>))"
  unfolding main_try_result using checked_opacity_invalid[OF assms]
  by (simp split: sum.splits option.splits)

lemma warning_logged:
  assumes "path_exists ev (args_input_image a)" "image_open ev (args_input_image a) = Inr im"
    and "\<not> (0 \<le> args_opacity a \<and> args_opacity a \<le> 255)"
  shows "(WARNING, Invalid_opacity (args_opacity a)) \<in> set (fst (main_try ev a))"
  using assms by (auto simp add: main_try_def Let_def split: sum.splits option.splits)

lemma draw_grid_log_no_opacity:
  "(WARNING, Invalid_opacity v) \<notin> set (draw_grid_log pil im spacing thickness)"
  by (auto simp add: draw_grid_log_def load_font_def split: sum.splits option.splits prod.splits if_splits)

lemma emit_no_opacity:
  "m \<noteq> Invalid_opacity v \<Longrightarrow> (WARNING, Invalid_opacity v) \<notin> set (emit d lv m)"
  by (simp add: emit_def)

lemma no_warning_logged:
  assumes "0 \<le> args_opacity a \<and> args_opacity a \<le> 255"
  shows "(WARNING, Invalid_opacity v) \<notin> set (fst (main_try ev a))"
  using assms
  by (auto simp add: main_try_def Let_def draw_grid_log_no_opacity emit_def
      split: sum.splits option.splits if_splits)

lemma no_warning_in_run:
  assumes "0 \<le> args_opacity a \<and> args_opacity a \<le> 255"
  shows "(WARNING, Invalid_opacity v) \<notin> set (logged (main_parsed ev a))"
  using no_warning_logged[OF assms, of v ev]
  by (simp add: main_parsed_fields(5) emit_def split: sum.splits)

lemma saved_image:
  assumes "saved (main_parsed ev a) = Some (out, img)"
  shows "\<exists>im rgba. image_open ev (args_input_image a) = Inr im
           \<and> ensure_rgba (env_pillow ev) im = Inr rgba
           \<and> draw_grid (env_pillow ev) rgba (args_spacing a) (args_color a)
                (checked_opacity (args_opacity a)) (args_thickness a) = Inr img
           \<and> image_save ev img out = None \<and> out = output_path ev a"
  using assms unfolding main_parsed_fields(4) main_try_result
  by (auto split: sum.splits option.splits if_splits)

text \<open>
  Claim C8, as amended. When the namespace is parsed, \<open>main\<close> returns. With an opacity
  outside 0 to 255, the value returned, the lines printed and the image saved are those
  of the same run with opacity 128, and once the input file has been found and opened
  the warning is logged. The image saved is always the one \<open>draw_grid\<close> returns for the
  supplied opacity when that lies in 0 to 255, and for 128 otherwise; with an opacity
  inside 0 to 255 no warning about the opacity is logged.
\<close>

theorem opacity_recovery:
  assumes "parse_args ev = Inr a"
  shows "main ev = Returns (main_parsed ev a)
     \<and> (\<not> (0 \<le> args_opacity a \<and> args_opacity a \<le> 255) \<longrightarrow>
          exit_code (main_parsed ev a) = exit_code (main_parsed ev (a\<lparr>args_opacity := 128\<rparr>))
        \<and> stdout (main_parsed ev a) = stdout (main_parsed ev (a\<lparr>args_opacity := 128\<rparr>))
        \<and> stderr (main_parsed ev a) = stderr (main_parsed ev (a\<lparr>args_opacity := 128\<rparr>))
        \<and> saved (main_parsed ev a) = saved (main_parsed ev (a\<lparr>args_opacity := 128\<rparr>))
        \<and> (path_exists ev (args_input_image a) \<and> returned (image_open ev (args_input_image a)) \<longrightarrow>
             (WARNING, Invalid_opacity (args_opacity a)) \<in> set (logged (main_parsed ev a))))
     \<and> (0 \<le> args_opacity a \<and> args_opacity a \<le> 255 \<longrightarrow>
          (\<forall>v. (WARNING, Invalid_opacity v) \<notin> set (logged (main_parsed ev a))))
     \<and> (\<forall>out img. saved (main_parsed ev a) = Some (out, img) \<longrightarrow>
          (\<exists>im rgba. image_open ev (args_input_image a) = Inr im
             \<and> ensure_rgba (env_pillow ev) im = Inr rgba
             \<and> draw_grid (env_pillow ev) rgba (args_spacing a) (args_color a)
                  (if 0 \<le> args_opacity a \<and> args_opacity a \<le> 255 then args_opacity a else 128)
                  (args_thickness a) = Inr img))"
proof -
  have m: "main ev = Returns (main_parsed ev a)" using assms by (simp add: main_def)
  have r: "exit_code (main_parsed ev a) = exit_code (main_parsed ev (a\<lparr>args_opacity := 128\<rparr>))
        \<and> stdout (main_parsed ev a) = stdout (main_parsed ev (a\<lparr>args_opacity := 128\<rparr>))
        \<and> stderr (main_parsed ev a) = stderr (main_parsed ev (a\<lparr>args_opacity := 128\<rparr>))
        \<and> saved (main_parsed ev a) = saved (main_parsed ev (a\<lparr>args_opacity := 128\<rparr>))"
    if "\<not> (0 \<le> args_opacity a \<and> args_opacity a \<le> 255)"
    by (simp add: main_parsed_fields main_try_reset[OF that])
  have w: "(WARNING, Invalid_opacity (args_opacity a)) \<in> set (logged (main_parsed ev a))"
    if "\<not> (0 \<le> args_opacity a \<and> args_opacity a \<le> 255)"
      "path_exists ev (args_input_image a)" "returned (image_open ev (args_input_image a))"
  proof -
    from that(3) obtain im where "image_open ev (args_input_image a) = Inr im"
      unfolding returned_Inr by blast
    from warning_logged[OF that(2) this that(1)] show ?thesis
      by (simp add: main_parsed_fields(5))
  qed
  have n: "\<forall>v. (WARNING, Invalid_opacity v) \<notin> set (logged (main_parsed ev a))"
    if "0 \<le> args_opacity a \<and> args_opacity a \<le> 255"
    using no_warning_in_run[OF that] by blast
  have s: "\<exists>im rgba. image_open ev (args_input_image a) = Inr im
             \<and> ensure_rgba (env_pillow ev) im = Inr rgba
             \<and> draw_grid (env_pillow ev) rgba (args_spacing a) (args_color a)
                  (if 0 \<le> args_opacity a \<and> args_opacity a \<le> 255 then args_opacity a else 128)
                  (args_thickness a) = Inr img"
    if "saved (main_parsed ev a) = Some (out, img)" for out img
    using saved_image[OF that] by (auto simp add: checked_opacity_def)
  from m r w n s show ?thesis by blast
qed

lemma cell_env_fields [simp]:
  "env_pillow (cell_env a) = cell_pillow"
  "parse_args (cell_env a) = Inr a"
  "path_exists (cell_env a) p = True"
  "image_open (cell_env a) p = Inr (new_rgba 20 20 (0, 0, 0, 255))"
  "image_save (cell_env a) im p = None"
  "default_base (cell_env a) p = takeWhile (\<lambda>c. c \<noteq> 46) p"
  "env_pillow (empty_env a) = cell_pillow"
  "parse_args (empty_env a) = Inr a"
  "path_exists (empty_env a) p = False"
  by (simp_all add: cell_env_def empty_env_def)

lemma cell_args_fields [simp]:
  "args_input_image (cell_args v) = ascii ''photo.png''"
  "args_spacing (cell_args v) = 15"
  "args_color (cell_args v) = (0, 0, 255)"
  "args_opacity (cell_args v) = v"
  "args_thickness (cell_args v) = 1"
  "args_output (cell_args v) = None"
  "args_debug (cell_args v) = False"
  by (simp_all add: cell_args_def)

lemma cell_output: "output_path (cell_env a) (cell_args v) = ascii ''photo_grid.png''"
  by (simp add: output_path_def ascii_def)

lemma cell_run:
  "\<exists>img. snd (main_try (cell_env a) (cell_args v)) = Inr (ascii ''photo_grid.png'', img)
        \<and> draw_grid cell_pillow (new_rgba 20 20 (0, 0, 0, 255)) 15 (0, 0, 255) (checked_opacity v) 1
            = Inr img"
proof -
  have "\<exists>img. draw_grid cell_pillow (new_rgba 20 20 (0, 0, 0, 255)) 15 (0, 0, 255)
           (checked_opacity v) 1 = Inr img"
    by (rule draw_grid_returns) simp_all
  then obtain img where "draw_grid cell_pillow (new_rgba 20 20 (0, 0, 0, 255)) 15 (0, 0, 255)
           (checked_opacity v) 1 = Inr img" by blast
  then show ?thesis
    by (simp add: main_try_result ensure_rgba_def cell_output)
qed

theorem opacity_recovery_witness:
  "parse_args (cell_env (cell_args 300)) = Inr (cell_args 300)
   \<and> \<not> (0 \<le> args_opacity (cell_args 300) \<and> args_opacity (cell_args 300) \<le> 255)
   \<and> path_exists (cell_env (cell_args 300)) (args_input_image (cell_args 300))
   \<and> returned (image_open (cell_env (cell_args 300)) (args_input_image (cell_args 300)))
   \<and> main (cell_env (cell_args 300)) = Returns (main_parsed (cell_env (cell_args 300)) (cell_args 300))
   \<and> exit_code (main_parsed (cell_env (cell_args 300)) (cell_args 300)) = 0
   \<and> (WARNING, Invalid_opacity 300) \<in> set (logged (main_parsed (cell_env (cell_args 300)) (cell_args 300)))
   \<and> (\<exists>img. saved (main_parsed (cell_env (cell_args 300)) (cell_args 300))
               = Some (ascii ''photo_grid.png'', img)
          \<and> draw_grid cell_pillow (new_rgba 20 20 (0, 0, 0, 255)) 15 (0, 0, 255) 128 1 = Inr img)
   \<and> parse_args (cell_env (cell_args 64)) = Inr (cell_args 64)
   \<and> 0 \<le> args_opacity (cell_args 64) \<and> args_opacity (cell_args 64) \<le> 255
   \<and> (WARNING, Invalid_opacity 64) \<notin> set (logged (main_parsed (cell_env (cell_args 64)) (cell_args 64)))
   \<and> (\<exists>img. saved (main_parsed (cell_env (cell_args 64)) (cell_args 64))
               = Some (ascii ''photo_grid.png'', img)
          \<and> draw_grid cell_pillow (new_rgba 20 20 (0, 0, 0, 255)) 15 (0, 0, 255) 64 1 = Inr img)"
proof -
  let ?e = "cell_env (cell_args 300)" and ?a = "cell_args 300"
  let ?f = "cell_env (cell_args 64)" and ?b = "cell_args 64"
  have p: "parse_args ?e = Inr ?a" "parse_args ?f = Inr ?b" by simp_all
  note t = opacity_recovery[OF p(1)] and u = opacity_recovery[OF p(2)]
  have o: "\<not> (0 \<le> args_opacity ?a \<and> args_opacity ?a \<le> 255)"
    "0 \<le> args_opacity ?b \<and> args_opacity ?b \<le> 255" by simp_all
  have x: "path_exists ?e (args_input_image ?a)" "returned (image_open ?e (args_input_image ?a))"
    by (simp_all add: returned_def)
  from cell_run[of ?a 300] obtain i1 where
    i1: "snd (main_try ?e ?a) = Inr (ascii ''photo_grid.png'', i1)" by blast
  from cell_run[of ?b 64] obtain i2 where
    i2: "snd (main_try ?f ?b) = Inr (ascii ''photo_grid.png'', i2)" by blast
  have s1: "saved (main_parsed ?e ?a) = Some (ascii ''photo_grid.png'', i1)"
    and c1: "exit_code (main_parsed ?e ?a) = 0"
    by (simp_all add: main_parsed_fields i1)
  have s2: "saved (main_parsed ?f ?b) = Some (ascii ''photo_grid.png'', i2)"
    by (simp add: main_parsed_fields i2)
  from t o(1) x have w: "(WARNING, Invalid_opacity 300) \<in> set (logged (main_parsed ?e ?a))"
    by simp
  from t s1 have d1: "draw_grid cell_pillow (new_rgba 20 20 (0, 0, 0, 255)) 15 (0, 0, 255) 128 1 = Inr i1"
    by (auto simp add: ensure_rgba_def)
  from u o(2) have n: "(WARNING, Invalid_opacity 64) \<notin> set (logged (main_parsed ?f ?b))"
    by blast
  from u s2 have d2: "draw_grid cell_pillow (new_rgba 20 20 (0, 0, 0, 255)) 15 (0, 0, 255) 64 1 = Inr i2"
    by (auto simp add: ensure_rgba_def)
  from t have m: "main ?e = Returns (main_parsed ?e ?a)" by blast
  from p o x m c1 w s1 d1 n s2 d2 show ?thesis by blast
qed

text \<open>
  Claim C8 as stated fails: with opacity 300 and an input path at which there is no
  file, the run ends in the handler of FileNotFoundError before the opacity is looked
  at, and no warning about the opacity is logged.
\<close>

theorem opacity_recovery_counterexample:
  "\<not> (0 \<le> args_opacity (cell_args 300) \<and> args_opacity (cell_args 300) \<le> 255)
   \<and> main (empty_env (cell_args 300))
       = Returns (main_parsed (empty_env (cell_args 300)) (cell_args 300))
   \<and> exit_code (main_parsed (empty_env (cell_args 300)) (cell_args 300)) = 1
   \<and> logged (main_parsed (empty_env (cell_args 300)) (cell_args 300))
       = [(ERROR, Plain (ascii ''Input file not found: photo.png''))]
   \<and> (WARNING, Invalid_opacity 300)
       \<notin> set (logged (main_parsed (empty_env (cell_args 300)) (cell_args 300)))"
  by (simp add: main_def main_parsed_fields main_try_missing emit_def ascii_def)


end
